theory Spec2Isabelle
  imports Main "HOL-Library.AList" "HOL-Library.Word"
begin

section \<open>Data model of the index\<close>

text \<open>
  Modelled from the spec: the symbol types (the headers under \<open>types/\<close> are not among the
  sources).  The records have the fields of the spec's data model, under the names the
  indexer and the matchers use for them.  A \<open>SymbolID\<close> is an opaque identity that the
  code only compares, through \<open>raw()\<close>; the default-constructed one is the null ID.
  Field names that occur in several C++ structs carry a suffix naming their struct
  (\<open>name_t\<close> is \<open>TypeRef::name\<close>, \<open>name_p\<close> is \<open>FunctionParam::name\<close>, ...).
\<close>

type_synonym SymbolID = nat

definition nullID :: SymbolID where
  "nullID = 0"

datatype AccessSpecifier = AS_public | AS_protected | AS_private | AS_none

record TypeRef =
  name_t :: string
  id_t :: SymbolID

record FunctionParam =
  name_p :: string
  type_p :: TypeRef
  defaultValue_p :: string

datatype TemplateType = TemplateTypeParameter | NonTypeTemplate | TemplateTemplateType

record TemplateParam =
  templateType :: TemplateType
  name_tp :: string
  type_tp :: string
  defaultValue_tp :: string
  isTypename :: bool
  isParameterPack :: bool

record MemberVariable =
  name_v :: string
  type_v :: TypeRef
  defaultValue_v :: string
  access_v :: AccessSpecifier
  isStatic_v :: bool
  docComment_v :: string

record BaseRecord =
  id_b :: SymbolID
  access_b :: AccessSpecifier
  name_b :: string

record EnumMember =
  name_m :: string
  value_m :: "64 word"
  docComment_m :: string

record Symbol =
  ID :: SymbolID
  name :: string
  fullyQualifiedName :: string
  declFile :: string
  declLine :: nat
  parentNamespaceID :: SymbolID
  docCommentBrief :: string
  docCommentLong :: string
  access :: AccessSpecifier

datatype RefQualifier = RQ_None | RQ_LValue | RQ_RValue

datatype StorageClass =
  SC_None | SC_Extern | SC_Static | SC_PrivateExtern | SC_Auto | SC_Register

record FunctionSymbol = Symbol +
  proto :: string
  postTemplate :: nat
  nameStart :: nat
  returnType :: TypeRef
  params :: "FunctionParam list"
  templateParams :: "TemplateParam list"
  isVariadic :: bool
  isVirtual :: bool
  isConstexpr :: bool
  isConsteval :: bool
  isInline :: bool
  isNoDiscard :: bool
  isNoExcept :: bool
  isNoReturn :: bool
  isConst :: bool
  isVolatile :: bool
  isRestrict :: bool
  isExplicit :: bool
  isCtorOrDtor :: bool
  isConversionOp :: bool
  isRecordMember :: bool
  refQualifier :: RefQualifier
  storageClass :: StorageClass
  hasTrailingReturn :: bool

record RecordSymbol = Symbol +
  type_r :: string
  proto_r :: string
  templateParams_r :: "TemplateParam list"
  baseRecords :: "BaseRecord list"
  methodIDs :: "SymbolID list"
  aliasIDs :: "SymbolID list"
  vars :: "MemberVariable list"

record EnumSymbol = Symbol +
  type_e :: string
  members :: "EnumMember list"

record NamespaceSymbol = Symbol +
  records_ns :: "SymbolID list"
  enums_ns :: "SymbolID list"
  namespaces_ns :: "SymbolID list"
  usings :: "SymbolID list"

record AliasSymbol = Symbol +
  target :: TypeRef
  isRecordMember_a :: bool

text \<open>The default-constructed values that \<open>reserve\<close> stores as placeholders.\<close>

definition defaultTypeRef :: TypeRef where
  "defaultTypeRef = \<lparr>name_t = [], id_t = nullID\<rparr>"

definition defaultFunctionSymbol :: FunctionSymbol where
  "defaultFunctionSymbol =
     \<lparr>ID = nullID, name = [], fullyQualifiedName = [], declFile = [], declLine = 0,
      parentNamespaceID = nullID, docCommentBrief = [], docCommentLong = [], access = AS_none,
      proto = [], postTemplate = 0, nameStart = 0, returnType = defaultTypeRef, params = [],
      templateParams = [], isVariadic = False, isVirtual = False, isConstexpr = False,
      isConsteval = False, isInline = False, isNoDiscard = False, isNoExcept = False,
      isNoReturn = False, isConst = False, isVolatile = False, isRestrict = False,
      isExplicit = False, isCtorOrDtor = False, isConversionOp = False,
      isRecordMember = False, refQualifier = RQ_None, storageClass = SC_None,
      hasTrailingReturn = False\<rparr>"

definition defaultRecordSymbol :: RecordSymbol where
  "defaultRecordSymbol =
     \<lparr>ID = nullID, name = [], fullyQualifiedName = [], declFile = [], declLine = 0,
      parentNamespaceID = nullID, docCommentBrief = [], docCommentLong = [], access = AS_none,
      type_r = [], proto_r = [], templateParams_r = [], baseRecords = [], methodIDs = [],
      aliasIDs = [], vars = []\<rparr>"

definition defaultEnumSymbol :: EnumSymbol where
  "defaultEnumSymbol =
     \<lparr>ID = nullID, name = [], fullyQualifiedName = [], declFile = [], declLine = 0,
      parentNamespaceID = nullID, docCommentBrief = [], docCommentLong = [], access = AS_none,
      type_e = [], members = []\<rparr>"

definition defaultNamespaceSymbol :: NamespaceSymbol where
  "defaultNamespaceSymbol =
     \<lparr>ID = nullID, name = [], fullyQualifiedName = [], declFile = [], declLine = 0,
      parentNamespaceID = nullID, docCommentBrief = [], docCommentLong = [], access = AS_none,
      records_ns = [], enums_ns = [], namespaces_ns = [], usings = []\<rparr>"

definition defaultAliasSymbol :: AliasSymbol where
  "defaultAliasSymbol =
     \<lparr>ID = nullID, name = [], fullyQualifiedName = [], declFile = [], declLine = 0,
      parentNamespaceID = nullID, docCommentBrief = [], docCommentLong = [], access = AS_none,
      target = defaultTypeRef, isRecordMember_a = False\<rparr>"

text \<open>
  Modelled from the spec: \<open>Database<T>\<close> and the index (their header is not among the
  sources).  A database is a table of symbols keyed by SymbolID together with the match
  counter; \<open>contains\<close> looks a key up, \<open>reserve\<close> creates an empty placeholder under a key
  that is not there, \<open>update\<close> stores a value under a key.  The entries are kept as an
  association list so that the loops over \<open>entries\<close> have an order to follow.
  (\<open>functions\<close> is a reserved word of the prover, so that database is \<open>functions_ix\<close>.)
\<close>

record 'a Database =
  entries :: "(SymbolID \<times> 'a) list"
  numMatches :: "64 word"

record Index =
  functions_ix :: "FunctionSymbol Database"
  records :: "RecordSymbol Database"
  enums :: "EnumSymbol Database"
  namespaces :: "NamespaceSymbol Database"
  aliases :: "AliasSymbol Database"

definition contains :: "('a, 'b) Database_scheme \<Rightarrow> SymbolID \<Rightarrow> bool" where
  "contains db k = (map_of (entries db) k \<noteq> None)"

definition reserve :: "'a \<Rightarrow> ('a, 'b) Database_scheme \<Rightarrow> SymbolID \<Rightarrow> ('a, 'b) Database_scheme" where
  "reserve dflt db k =
     (if contains db k then db else db\<lparr>entries := entries db @ [(k, dflt)]\<rparr>)"

definition update :: "('a, 'b) Database_scheme \<Rightarrow> SymbolID \<Rightarrow> 'a \<Rightarrow> ('a, 'b) Database_scheme" where
  "update db k v = db\<lparr>entries := AList.update k v (entries db)\<rparr>"

definition countMatch :: "('a, 'b) Database_scheme \<Rightarrow> ('a, 'b) Database_scheme" where
  "countMatch db = db\<lparr>numMatches := numMatches db + 1\<rparr>"

section \<open>The declarations the matchers see\<close>

text \<open>
  A declaration of the front-end, reduced to what the matchers ask of it.  The chain of
  enclosing declaration contexts is a list, innermost first: \<open>getDeclContext()\<close> is its
  head and each \<open>getParent()\<close> moves one element on, until the null parent at the end.
  \<open>fileEntryName\<close> is the name of the file entry of the expansion location, already made
  relative to the root directory of the configuration; it is \<open>None\<close> when the location
  has no file entry.  \<open>buildID\<close> is the SymbolID that \<open>buildID\<close> computes for the node.
\<close>

datatype DeclContext =
    NamespaceDecl bool string
  | RecordContext string
  | FunctionOrMethod
  | TranslationUnit

record Decl =
  expansionLocValid :: bool
  fileEntryName :: "string option"
  sourceRangeValid :: bool
  declContexts :: "DeclContext list"
  isImplicit :: bool
  getAccess :: AccessSpecifier
  getNameAsString :: string
  getQualifiedNameAsString :: string
  isCXXClassMember :: bool
  buildID :: SymbolID

record Config =
  rootDir :: string
  ignorePaths :: "string list"
  ignoreNamespaces :: "string list"
  ignorePrivateMembers :: bool

section \<open>The ignore filter\<close>

text \<open>\<open>s.find(sub) != npos\<close>: \<open>sub\<close> occurs in \<open>s\<close> as a contiguous run of characters.\<close>

fun found :: "string \<Rightarrow> string \<Rightarrow> bool" where
  "found [] sub = (sub = [])"
| "found (c # cs) sub = (take (length sub) (c # cs) = sub \<or> found cs sub)"

fun isEnclosingNamespaceInList_ctx :: "DeclContext list \<Rightarrow> string list \<Rightarrow> bool" where
  "isEnclosingNamespaceInList_ctx [] list = False"
| "isEnclosingNamespaceInList_ctx (NamespaceDecl anonymous nm # parents) list =
     (if anonymous then isEnclosingNamespaceInList_ctx parents list
      else if list_ex (\<lambda>substr. found nm substr) list then True
      else isEnclosingNamespaceInList_ctx parents list)"
| "isEnclosingNamespaceInList_ctx (_ # parents) list =
     isEnclosingNamespaceInList_ctx parents list"

definition isEnclosingNamespaceInList :: "'a Decl_scheme \<Rightarrow> string list \<Rightarrow> bool" where
  "isEnclosingNamespaceInList decl list =
     isEnclosingNamespaceInList_ctx (declContexts decl) list"

definition shouldBeIgnored :: "Config \<Rightarrow> 'a Decl_scheme \<Rightarrow> bool" where
  "shouldBeIgnored cfg Node =
     (if length (ignorePaths cfg) = 0 then False
      else if \<not> expansionLocValid Node then False
      else case fileEntryName Node of
        None \<Rightarrow> False
      | Some filename \<Rightarrow>
          if list_ex (\<lambda>substr. found filename substr) (ignorePaths cfg) then True
          else isEnclosingNamespaceInList Node (ignoreNamespaces cfg))"

text \<open>
  Modelled from the spec: \<open>isInIgnoreList\<close> and \<open>isInAnonymousNamespace\<close> (MatcherUtils is
  not among the sources).  A declaration is in the ignore list when the name of its file,
  relative to the root directory, contains a substring of \<open>ignorePaths\<close> or when an
  enclosing non-anonymous namespace's name contains a substring of \<open>ignoreNamespaces\<close>; it
  is in an anonymous namespace when one of its enclosing contexts is one.
\<close>

definition isInIgnoreList :: "'a Decl_scheme \<Rightarrow> Config \<Rightarrow> bool" where
  "isInIgnoreList d cfg =
     ((case fileEntryName d of
         None \<Rightarrow> False
       | Some filename \<Rightarrow> list_ex (\<lambda>substr. found filename substr) (ignorePaths cfg))
      \<or> isEnclosingNamespaceInList d (ignoreNamespaces cfg))"

fun isAnonymousNamespaceContext :: "DeclContext \<Rightarrow> bool" where
  "isAnonymousNamespaceContext (NamespaceDecl anonymous nm) = anonymous"
| "isAnonymousNamespaceContext _ = False"

definition isInAnonymousNamespace :: "'a Decl_scheme \<Rightarrow> bool" where
  "isInAnonymousNamespace d = list_ex isAnonymousNamespaceContext (declContexts d)"

section \<open>Resolving a type to a SymbolID\<close>

text \<open>
  A tag declaration with the ID \<open>buildID\<close> gives it and, when
  \<open>getNonSpecializedVersionOfDecl\<close> finds a primary template for it, that template's ID.
  A qualified type with its printed form and the tag declarations \<open>getAsTagDecl\<close> finds
  on the type itself, on its pointee and on its non-reference type.  Without a tag
  declaration there is no primary template either, and the ID is the null ID.
\<close>

record TagDecl =
  tagID :: SymbolID
  nonSpecializedID :: "SymbolID option"

record QualType =
  getAsString :: string
  getAsTagDecl :: "TagDecl option"
  isPointerType :: bool
  pointeeTagDecl :: "TagDecl option"
  isReferenceType :: bool
  nonReferenceTagDecl :: "TagDecl option"

definition getTypeSymbolID :: "QualType \<Rightarrow> SymbolID" where
  "getTypeSymbolID typ =
     (let ret =
        (case getAsTagDecl typ of
           Some decl \<Rightarrow> Some decl
         | None \<Rightarrow>
            if isPointerType typ \<and> pointeeTagDecl typ \<noteq> None then pointeeTagDecl typ
            else if isReferenceType typ \<and> nonReferenceTagDecl typ \<noteq> None
              then nonReferenceTagDecl typ
            else None)
      in case ret of
           None \<Rightarrow> nullID
         | Some decl \<Rightarrow>
            (case nonSpecializedID decl of Some nonspec \<Rightarrow> nonspec | None \<Rightarrow> tagID decl))"

section \<open>The function matcher\<close>

text \<open>
  A function declaration: the common part and what \<open>FunctionMatcher::run\<close> tests before it
  builds the symbol.  \<open>filled_f\<close> stands for the symbol as the body of \<open>run\<close> fills it from
  the syntax tree (\<open>fillOutSymbol\<close>, the qualifiers, parameters, template parameters,
  comment, prototype and \<open>fillNamespace\<close>); the ID, the access and \<open>isRecordMember\<close> are
  assigned here from the node.
\<close>

record FunctionDecl = Decl +
  isDeletedAsWritten :: bool
  isDeductionGuide :: bool
  isStatic :: bool
  filled_f :: FunctionSymbol

definition FunctionMatcher_run :: "Config \<Rightarrow> FunctionDecl \<Rightarrow> Index \<Rightarrow> Index" where
  "FunctionMatcher_run cfg res index =
     (if isDeletedAsWritten res then index
      else if isDeductionGuide res then index
      else
        let index = index\<lparr>functions_ix := countMatch (functions_ix index)\<rparr> in
        if isInIgnoreList res cfg \<or> \<not> sourceRangeValid res
           \<or> (isStatic res \<and> \<not> isCXXClassMember res) \<or> isInAnonymousNamespace res
           \<or> (getAccess res = AS_private \<and> ignorePrivateMembers cfg = True)
        then index
        else if contains (functions_ix index) (buildID res) then index
        else
          let f = (filled_f res)\<lparr>ID := buildID res, access := getAccess res,
                                 isRecordMember := isCXXClassMember res\<rparr>
          in index\<lparr>functions_ix :=
               update (reserve defaultFunctionSymbol (functions_ix index) (buildID res)) (ID f) f\<rparr>)"

section \<open>The alias matcher\<close>

text \<open>
  The named declarations the alias matcher is run on.  A using-declaration has its shadow
  declarations, each with the ID and the qualified name of its underlying declaration; a
  shadow declaration has its target; a type alias has its underlying type.  \<open>filled_a\<close>
  stands for the symbol as \<open>fillOutSymbol\<close>, the comment and \<open>fillNamespace\<close> fill it; the
  target starts out default-constructed.
\<close>

record NamedRef =
  refID :: SymbolID
  refQualifiedName :: string

datatype NamedKind =
    UsingDecl "NamedRef list"
  | UsingShadowDecl NamedRef
  | TypeAliasDecl QualType
  | OtherNamedDecl

record NamedDecl = Decl +
  kind :: NamedKind
  filled_a :: AliasSymbol

fun isAliasKind :: "NamedKind \<Rightarrow> bool" where
  "isAliasKind OtherNamedDecl = False"
| "isAliasKind _ = True"

fun isFunctionOrMethod :: "DeclContext list \<Rightarrow> bool" where
  "isFunctionOrMethod (FunctionOrMethod # _) = True"
| "isFunctionOrMethod _ = False"

text \<open>The loop over the shadows assigns the target anew at every shadow.\<close>

fun shadowsTarget :: "TypeRef \<Rightarrow> NamedRef list \<Rightarrow> TypeRef" where
  "shadowsTarget t [] = t"
| "shadowsTarget t (shadow # shadows) =
     shadowsTarget (t\<lparr>id_t := refID shadow, name_t := refQualifiedName shadow\<rparr>) shadows"

fun aliasTarget :: "TypeRef \<Rightarrow> NamedKind \<Rightarrow> TypeRef" where
  "aliasTarget t (UsingDecl shadows) = shadowsTarget t shadows"
| "aliasTarget t (UsingShadowDecl tgt) = t\<lparr>id_t := refID tgt, name_t := refQualifiedName tgt\<rparr>"
| "aliasTarget t (TypeAliasDecl underlying) =
     t\<lparr>id_t := getTypeSymbolID underlying, name_t := getAsString underlying\<rparr>"
| "aliasTarget t OtherNamedDecl = t"

definition UsingMatcher_run :: "Config \<Rightarrow> NamedDecl \<Rightarrow> Index \<Rightarrow> Index" where
  "UsingMatcher_run cfg res index =
     (if \<not> isAliasKind (kind res) then index
      else if isFunctionOrMethod (declContexts res) then index
      else
        let index = index\<lparr>aliases := countMatch (aliases index)\<rparr> in
        if isInIgnoreList res cfg \<or> \<not> sourceRangeValid res
           \<or> (getAccess res = AS_private \<and> ignorePrivateMembers cfg = True)
        then index
        else if contains (aliases index) (buildID res) then index
        else
          let a = (filled_a res)\<lparr>ID := buildID res, isRecordMember_a := isCXXClassMember res\<rparr>;
              a = (if isRecordMember_a a then a\<lparr>access := getAccess res\<rparr> else a);
              a = a\<lparr>target := aliasTarget defaultTypeRef (kind res)\<rparr>
          in index\<lparr>aliases :=
               update (reserve defaultAliasSymbol (aliases index) (buildID res)) (ID a) a\<rparr>)"

section \<open>The record, enum and namespace matchers\<close>

text \<open>
  A record declaration with its methods, its other member declarations, its bases and
  its fields.  \<open>filled_r\<close> stands for the symbol as \<open>fillOutSymbol\<close>, the template
  parameters, the comment and \<open>fillNamespace\<close> fill it; \<open>templateArgs\<close> is the result of
  \<open>templateArgsToStrings\<close> when the record is a class template specialization, and
  \<open>recordProto\<close> the prototype \<open>getRecordProto\<close> renders.  The bases are read when
  \<open>isThisDeclarationADefinition()\<close> holds, which it does for every complete definition,
  and only complete definitions get that far.
\<close>

record CXXMethodDecl = Decl +
  canonicalDeclID :: SymbolID

text \<open>
  A base specifier of the front-end.  \<open>getAccessSpecifier\<close> is the access the front-end
  reports for the base, which is what the matcher stores; \<open>getAccessSpecifierAsWritten\<close>
  is the specifier as it stands in the source, none when the source has none there.
\<close>

record CXXBaseSpecifier =
  baseIsRecord :: bool
  baseID :: SymbolID
  getAccessSpecifier :: AccessSpecifier
  getAccessSpecifierAsWritten :: AccessSpecifier
  baseName :: string
  isInStdNamespace :: bool

record VarOrFieldDecl =
  getAccess_v :: AccessSpecifier
  getNameAsString_v :: string
  initializer :: "string option"
  getType :: QualType
  isAnonymousStructOrUnion :: bool
  paragraphComment :: string

datatype MemberDecl =
    FunctionTemplateDecl Decl
  | MemberAliasDecl Decl
  | VarDecl VarOrFieldDecl
  | OtherMemberDecl

record CXXRecordDecl = Decl +
  isCompleteDefinition :: bool
  typedefNameForAnonDecl :: "string option"
  isSpecialization :: bool
  hasTypeAsWritten :: bool
  templateArgs :: "string list"
  methods :: "CXXMethodDecl list"
  decls :: "MemberDecl list"
  bases :: "CXXBaseSpecifier list"
  fields_r :: "VarOrFieldDecl list"
  recordProto :: string
  filled_r :: RecordSymbol

definition memberIgnored :: "Config \<Rightarrow> 'a Decl_scheme \<Rightarrow> bool" where
  "memberIgnored cfg m =
     (isImplicit m \<or> isInIgnoreList m cfg \<or> isInAnonymousNamespace m
      \<or> (getAccess m = AS_private \<and> ignorePrivateMembers cfg = True))"

fun methodIDsOfMethods :: "Config \<Rightarrow> CXXMethodDecl list \<Rightarrow> SymbolID list" where
  "methodIDsOfMethods cfg [] = []"
| "methodIDsOfMethods cfg (m # ms) =
     (if memberIgnored cfg m then methodIDsOfMethods cfg ms
      else canonicalDeclID m # methodIDsOfMethods cfg ms)"

fun methodIDsOfDecls :: "Config \<Rightarrow> MemberDecl list \<Rightarrow> SymbolID list" where
  "methodIDsOfDecls cfg [] = []"
| "methodIDsOfDecls cfg (FunctionTemplateDecl ftd # ds) =
     (if memberIgnored cfg ftd then methodIDsOfDecls cfg ds
      else buildID ftd # methodIDsOfDecls cfg ds)"
| "methodIDsOfDecls cfg (_ # ds) = methodIDsOfDecls cfg ds"

fun aliasIDsOfDecls :: "Config \<Rightarrow> MemberDecl list \<Rightarrow> SymbolID list" where
  "aliasIDsOfDecls cfg [] = []"
| "aliasIDsOfDecls cfg (MemberAliasDecl alias # ds) =
     (if memberIgnored cfg alias then aliasIDsOfDecls cfg ds
      else buildID alias # aliasIDsOfDecls cfg ds)"
| "aliasIDsOfDecls cfg (_ # ds) = aliasIDsOfDecls cfg ds"

fun baseRecordsOf :: "CXXBaseSpecifier list \<Rightarrow> BaseRecord list" where
  "baseRecordsOf [] = []"
| "baseRecordsOf (base # bs) =
     (if baseIsRecord base then
        (if isInStdNamespace base
         then \<lparr>id_b = baseID base, access_b = getAccessSpecifier base,
               name_b = ''std::'' @ baseName base\<rparr>
         else \<lparr>id_b = baseID base, access_b = getAccessSpecifier base,
               name_b = baseName base\<rparr>) # baseRecordsOf bs
      else baseRecordsOf bs)"

definition isAnonRecordMemberVar :: "VarOrFieldDecl \<Rightarrow> bool" where
  "isAnonRecordMemberVar decl = found (getAsString (getType decl)) ''anonymous ''"

definition memberVariable :: "bool \<Rightarrow> bool \<Rightarrow> VarOrFieldDecl \<Rightarrow> MemberVariable" where
  "memberVariable static anon d =
     \<lparr>name_v = getNameAsString_v d,
      type_v = (if anon then \<lparr>name_t = ''anonymous struct/union'', id_t = nullID\<rparr>
                else \<lparr>name_t = getAsString (getType d), id_t = getTypeSymbolID (getType d)\<rparr>),
      defaultValue_v = (case initializer d of None \<Rightarrow> [] | Some e \<Rightarrow> e),
      access_v = getAccess_v d,
      isStatic_v = static,
      docComment_v = paragraphComment d\<rparr>"

fun varsOfFields :: "Config \<Rightarrow> VarOrFieldDecl list \<Rightarrow> MemberVariable list" where
  "varsOfFields cfg [] = []"
| "varsOfFields cfg (field # fs) =
     (if getAccess_v field = AS_private \<and> ignorePrivateMembers cfg = True
      then varsOfFields cfg fs
      else memberVariable False (isAnonymousStructOrUnion field \<or> isAnonRecordMemberVar field)
             field # varsOfFields cfg fs)"

fun varsOfDecls :: "Config \<Rightarrow> MemberDecl list \<Rightarrow> MemberVariable list" where
  "varsOfDecls cfg [] = []"
| "varsOfDecls cfg (VarDecl vd # ds) =
     (if getAccess_v vd = AS_private \<and> ignorePrivateMembers cfg = True
      then varsOfDecls cfg ds
      else memberVariable True (isAnonRecordMemberVar vd) vd # varsOfDecls cfg ds)"
| "varsOfDecls cfg (_ # ds) = varsOfDecls cfg ds"

fun parentRecordName :: "DeclContext list \<Rightarrow> string option" where
  "parentRecordName (RecordContext nm # _) = Some nm"
| "parentRecordName _ = None"

fun join :: "string list \<Rightarrow> string \<Rightarrow> string" where
  "join [] sep = []"
| "join [x] sep = x"
| "join (x # y # ys) sep = x @ sep @ join (y # ys) sep"

definition RecordMatcher_run :: "Config \<Rightarrow> CXXRecordDecl \<Rightarrow> Index \<Rightarrow> Index" where
  "RecordMatcher_run cfg res index =
     (let index = index\<lparr>records := countMatch (records index)\<rparr> in
      if \<not> isCompleteDefinition res \<or> \<not> sourceRangeValid res
         \<or> isInIgnoreList res cfg \<or> isInAnonymousNamespace res
      then index
      else
        let cachedName =
              (if getNameAsString res = []
               then (case typedefNameForAnonDecl res of None \<Rightarrow> [] | Some nm \<Rightarrow> nm)
               else [])
        in
        if getNameAsString res = [] \<and> cachedName = [] then index
        else if isSpecialization res \<and> \<not> hasTypeAsWritten res then index
        else if contains (records index) (buildID res) then index
        else
          let c = (filled_r res)\<lparr>ID := buildID res\<rparr>;
              c = (if name c = [] then c\<lparr>name := cachedName\<rparr> else c);
              c = (case parentRecordName (declContexts res) of
                     None \<Rightarrow> c
                   | Some parent \<Rightarrow> c\<lparr>name := parent @ ''::'' @ name c\<rparr>);
              c = c\<lparr>methodIDs := methodIDsOfMethods cfg (methods res)
                                   @ methodIDsOfDecls cfg (decls res),
                     aliasIDs := aliasIDsOfDecls cfg (decls res),
                     baseRecords := baseRecordsOf (bases res)\<rparr>;
              c = (if isSpecialization res
                   then c\<lparr>name := name c @ ''<'' @ join (templateArgs res) '', '' @ ''>''\<rparr>
                   else c);
              c = c\<lparr>proto_r := recordProto res,
                     vars := varsOfFields cfg (fields_r res) @ varsOfDecls cfg (decls res)\<rparr>
          in index\<lparr>records :=
               update (reserve defaultRecordSymbol (records index) (buildID res)) (ID c) c\<rparr>)"

text \<open>
  An enum declaration; \<open>filled_e\<close> stands for the symbol as \<open>fillOutSymbol\<close>, the kind of
  enum, the enumerators, the comment and \<open>fillNamespace\<close> fill it.
\<close>

record EnumDecl = Decl +
  filled_e :: EnumSymbol

definition EnumMatcher_run :: "Config \<Rightarrow> EnumDecl \<Rightarrow> Index \<Rightarrow> Index" where
  "EnumMatcher_run cfg res index =
     (let index = index\<lparr>enums := countMatch (enums index)\<rparr> in
      if getNameAsString res = [] \<or> isInIgnoreList res cfg \<or> isInAnonymousNamespace res
      then index
      else if contains (enums index) (buildID res) then index
      else
        let e = (filled_e res)\<lparr>ID := buildID res\<rparr>;
            e = (case parentRecordName (declContexts res) of
                   None \<Rightarrow> e
                 | Some parent \<Rightarrow> e\<lparr>name := parent @ ''::'' @ name e\<rparr>)
        in index\<lparr>enums :=
             update (reserve defaultEnumSymbol (enums index) (buildID res)) (ID e) e\<rparr>)"

record NamespaceNode = Decl +
  filled_n :: NamespaceSymbol

definition NamespaceMatcher_run :: "Config \<Rightarrow> NamespaceNode \<Rightarrow> Index \<Rightarrow> Index" where
  "NamespaceMatcher_run cfg res index =
     (let index = index\<lparr>namespaces := countMatch (namespaces index)\<rparr> in
      if getNameAsString res = [] \<or> isInIgnoreList res cfg \<or> isInAnonymousNamespace res
      then index
      else if contains (namespaces index) (buildID res) then index
      else
        let n = (filled_n res)\<lparr>ID := buildID res\<rparr>
        in index\<lparr>namespaces :=
             update (reserve defaultNamespaceSymbol (namespaces index) (buildID res)) (ID n) n\<rparr>)"

section \<open>The post-passes of the indexer\<close>

definition isChild :: "'a Symbol_scheme \<Rightarrow> 'b Symbol_scheme \<Rightarrow> bool" where
  "isChild ns s = (parentNamespaceID s = ID ns)"

subsection \<open>resolveNamespaces\<close>

text \<open>One inner loop: the IDs of the children of \<open>ns\<close> are appended in the order of the entries.\<close>

fun appendChildren ::
  "'a Symbol_scheme \<Rightarrow> SymbolID list \<Rightarrow> (SymbolID \<times> 'b Symbol_scheme) list \<Rightarrow> SymbolID list" where
  "appendChildren ns acc [] = acc"
| "appendChildren ns acc ((k, v) # es) =
     appendChildren ns (if isChild ns v then acc @ [ID v] else acc) es"

text \<open>
  The body of the outer loop.  The inner loop over the namespaces reads the entries that
  the outer loop is writing, but only their \<open>ID\<close> and \<open>parentNamespaceID\<close>, which the pass
  never assigns; so the body reads them from the index as it was when the pass began.
\<close>

definition resolveNamespace :: "Index \<Rightarrow> NamespaceSymbol \<Rightarrow> NamespaceSymbol" where
  "resolveNamespace index ns =
     ns\<lparr>records_ns := appendChildren ns (records_ns ns) (entries (records index)),
        enums_ns := appendChildren ns (enums_ns ns) (entries (enums index)),
        namespaces_ns := appendChildren ns (namespaces_ns ns) (entries (namespaces index)),
        usings := appendChildren ns (usings ns) (entries (aliases index))\<rparr>"

definition resolveNamespaces :: "Index \<Rightarrow> Index" where
  "resolveNamespaces index =
     index\<lparr>namespaces := (namespaces index)
       \<lparr>entries := map (\<lambda>(k, ns). (k, resolveNamespace index ns)) (entries (namespaces index))\<rparr>\<rparr>"

subsection \<open>updateRecordNames\<close>

fun accessPrefix :: "AccessSpecifier \<Rightarrow> string" where
  "accessPrefix AS_public = ''public ''"
| "accessPrefix AS_private = ''private ''"
| "accessPrefix AS_protected = ''protected ''"
| "accessPrefix AS_none = []"

text \<open>The loop over the base records, with the prototype built so far and the counter.\<close>

fun appendBases :: "string \<Rightarrow> nat \<Rightarrow> BaseRecord list \<Rightarrow> string" where
  "appendBases p count [] = p"
| "appendBases p count (baseRecord # bs) =
     appendBases
       ((if count > 0 then p @ '', '' else p) @ accessPrefix (access_b baseRecord)
          @ name_b baseRecord)
       (count + 1) bs"

definition updateRecordName :: "RecordSymbol \<Rightarrow> RecordSymbol" where
  "updateRecordName c =
     (if length (baseRecords c) > 0
      then c\<lparr>proto_r := appendBases (proto_r c @ '' : '') 0 (baseRecords c)\<rparr>
      else c)"

definition updateRecordNames :: "Index \<Rightarrow> Index" where
  "updateRecordNames index =
     index\<lparr>records := (records index)
       \<lparr>entries := map (\<lambda>(k, c). (k, updateRecordName c)) (entries (records index))\<rparr>\<rparr>"

subsection \<open>updateMemberFunctions\<close>

datatype error = out_of_range

text \<open>
  \<open>std::string::substr(pos, n)\<close> throws when \<open>pos\<close> lies behind the end of the string and
  otherwise gives at most \<open>n\<close> characters from \<open>pos\<close> on; \<open>substr(pos)\<close> gives all of them.
  The offsets are unsigned 64-bit numbers, so the difference of two of them wraps.
\<close>

definition substr :: "string \<Rightarrow> nat \<Rightarrow> nat \<Rightarrow> error + string" where
  "substr s pos n = (if pos > length s then Inl out_of_range else Inr (take n (drop pos s)))"

definition substrFrom :: "string \<Rightarrow> nat \<Rightarrow> error + string" where
  "substrFrom s pos = (if pos > length s then Inl out_of_range else Inr (drop pos s))"

definition wrapSub :: "nat \<Rightarrow> nat \<Rightarrow> nat" where
  "wrapSub a b = (if b \<le> a then a - b else a + 2 ^ 64 - b)"

definition digit :: "nat \<Rightarrow> char" where
  "digit d = ''0123456789'' ! d"

function to_string :: "nat \<Rightarrow> string" where
  "to_string n = (if n < 10 then [digit n] else to_string (n div 10) @ [digit (n mod 10)])"
  by pat_completeness auto
termination
  by (relation "measure (\<lambda>n. n)") auto

declare to_string.simps [simp del]

text \<open>
  Modelled from the spec: \<open>replaceAll\<close> (support/StringUtils is not among the sources).
  All occurrences of \<open>from\<close> in \<open>str\<close> are replaced by \<open>to\<close>, found from left to right
  and without looking into the text already put in.  The indexer calls it with a
  non-empty \<open>from\<close> only; for an empty one the string is given back.
\<close>

function replaceAll :: "string \<Rightarrow> string \<Rightarrow> string \<Rightarrow> string" where
  "replaceAll [] from to = []"
| "replaceAll (c # cs) from to =
     (if from \<noteq> [] \<and> take (length from) (c # cs) = from
      then to @ replaceAll (drop (length from) (c # cs)) from to
      else c # replaceAll cs from to)"
  by pat_completeness auto
termination
  by (relation "measure (\<lambda>(str, from, to). length str)") auto

text \<open>The lambda \<open>fixTypeParam\<close>; the counter \<open>i\<close> runs along the template parameters.\<close>

fun fixTypeParam_from :: "nat \<Rightarrow> TemplateParam list \<Rightarrow> string \<Rightarrow> string" where
  "fixTypeParam_from i [] s = s"
| "fixTypeParam_from i (p # ps) s =
     fixTypeParam_from (i + 1) ps
       (replaceAll s (''type-parameter-0-'' @ to_string i) (name_tp p))"

definition fixTypeParam :: "RecordSymbol \<Rightarrow> string \<Rightarrow> string" where
  "fixTypeParam c s = fixTypeParam_from 0 (templateParams_r c) s"

definition fixParam :: "RecordSymbol \<Rightarrow> FunctionParam \<Rightarrow> FunctionParam" where
  "fixParam c param =
     param\<lparr>type_p := (type_p param)\<lparr>name_t := fixTypeParam c (name_t (type_p param))\<rparr>,
           defaultValue_p := fixTypeParam c (defaultValue_p param)\<rparr>"

text \<open>The body of the inner loop, for a method that is in the index.\<close>

definition updateMemberFunction :: "RecordSymbol \<Rightarrow> FunctionSymbol \<Rightarrow> error + FunctionSymbol" where
  "updateMemberFunction c f =
     (case substr (proto f) 0 (postTemplate f) of
        Inl e \<Rightarrow> Inl e
      | Inr templatePart \<Rightarrow>
     (case substr (proto f) (postTemplate f) (wrapSub (nameStart f) (postTemplate f)) of
        Inl e \<Rightarrow> Inl e
      | Inr preNamePart \<Rightarrow>
     (case substrFrom (proto f) (nameStart f) of
        Inl e \<Rightarrow> Inl e
      | Inr restPart \<Rightarrow>
          let templatePart = fixTypeParam c templatePart;
              preNamePart = fixTypeParam c preNamePart;
              restPart = fixTypeParam c restPart;
              nm = fixTypeParam c (name f);
              newProto = templatePart @ preNamePart @ restPart;
              f = (if newProto \<noteq> proto f
                   then f\<lparr>proto := templatePart @ preNamePart @ restPart,
                          name := nm,
                          postTemplate := length templatePart,
                          nameStart := length templatePart + length preNamePart\<rparr>
                   else f)
          in Inr (f\<lparr>params := map (fixParam c) (params f)\<rparr>))))"

fun updateMethods ::
  "RecordSymbol \<Rightarrow> SymbolID list \<Rightarrow> FunctionSymbol Database \<Rightarrow> error + FunctionSymbol Database" where
  "updateMethods c [] fs = Inr fs"
| "updateMethods c (symbol # symbols) fs =
     (case map_of (entries fs) symbol of
        None \<Rightarrow> updateMethods c symbols fs
      | Some f \<Rightarrow>
         (case updateMemberFunction c f of
            Inl e \<Rightarrow> Inl e
          | Inr f' \<Rightarrow> updateMethods c symbols (update fs symbol f')))"

fun updateRecords ::
  "(SymbolID \<times> RecordSymbol) list \<Rightarrow> FunctionSymbol Database \<Rightarrow> error + FunctionSymbol Database" where
  "updateRecords [] fs = Inr fs"
| "updateRecords ((k, c) # cs) fs =
     (case updateMethods c (methodIDs c) fs of
        Inl e \<Rightarrow> Inl e
      | Inr fs' \<Rightarrow> updateRecords cs fs')"

definition updateMemberFunctions :: "Index \<Rightarrow> error + Index" where
  "updateMemberFunctions index =
     (case updateRecords (entries (records index)) (functions_ix index) of
        Inl e \<Rightarrow> Inl e
      | Inr fs \<Rightarrow> Inr (index\<lparr>functions_ix := fs\<rparr>))"

subsection \<open>pruneMethods\<close>

definition pruneMethods :: "Index \<Rightarrow> Index" where
  "pruneMethods index =
     (let toBePruned =
            map fst (filter (\<lambda>(k, v). isRecordMember v
                                      \<and> \<not> contains (records index) (parentNamespaceID v))
                       (entries (functions_ix index)))
      in index\<lparr>functions_ix := (functions_ix index)
           \<lparr>entries := fold AList.delete toBePruned (entries (functions_ix index))\<rparr>\<rparr>)"

subsection \<open>pruneTypeRefs\<close>

definition haveId :: "Index \<Rightarrow> SymbolID \<Rightarrow> bool" where
  "haveId index i =
     (contains (records index) i \<or> contains (enums index) i \<or> contains (aliases index) i)"

definition pruneTypeRef :: "Index \<Rightarrow> TypeRef \<Rightarrow> TypeRef" where
  "pruneTypeRef index t = (if haveId index (id_t t) = False then t\<lparr>id_t := nullID\<rparr> else t)"

definition pruneFunction :: "Index \<Rightarrow> FunctionSymbol \<Rightarrow> FunctionSymbol" where
  "pruneFunction index v =
     v\<lparr>returnType := pruneTypeRef index (returnType v),
       params := map (\<lambda>param. param\<lparr>type_p := pruneTypeRef index (type_p param)\<rparr>) (params v)\<rparr>"

definition pruneRecord :: "Index \<Rightarrow> RecordSymbol \<Rightarrow> RecordSymbol" where
  "pruneRecord index v =
     v\<lparr>vars := map (\<lambda>var. var\<lparr>type_v := pruneTypeRef index (type_v var)\<rparr>) (vars v)\<rparr>"

definition pruneAlias :: "Index \<Rightarrow> AliasSymbol \<Rightarrow> AliasSymbol" where
  "pruneAlias index v = v\<lparr>target := pruneTypeRef index (target v)\<rparr>"

text \<open>The three loops run one after the other, each on the index the one before left.\<close>

definition pruneTypeRefs :: "Index \<Rightarrow> Index" where
  "pruneTypeRefs index =
     (let index = index\<lparr>functions_ix := (functions_ix index)
            \<lparr>entries := map (\<lambda>(k, v). (k, pruneFunction index v))
                          (entries (functions_ix index))\<rparr>\<rparr>;
          index = index\<lparr>records := (records index)
            \<lparr>entries := map (\<lambda>(k, v). (k, pruneRecord index v)) (entries (records index))\<rparr>\<rparr>;
          index = index\<lparr>aliases := (aliases index)
            \<lparr>entries := map (\<lambda>(k, v). (k, pruneAlias index v)) (entries (aliases index))\<rparr>\<rparr>
      in index)"

subsection \<open>What the spec says of pruneTypeRefs\<close>

text \<open>
  An ID resolves when it is the key of a record, an enum or an alias of the index.  A
  pruned TypeRef keeps its name, and keeps its ID when that resolves and has the null ID
  otherwise; a TypeRef is settled when its ID is null or resolves.
\<close>

definition resolves :: "Index \<Rightarrow> SymbolID \<Rightarrow> bool" where
  "resolves index i =
     (i \<in> fst ` set (entries (records index)) \<or> i \<in> fst ` set (entries (enums index))
      \<or> i \<in> fst ` set (entries (aliases index)))"

definition prunedRef :: "Index \<Rightarrow> TypeRef \<Rightarrow> TypeRef \<Rightarrow> bool" where
  "prunedRef index t t' =
     (name_t t' = name_t t \<and> id_t t' = (if resolves index (id_t t) then id_t t else nullID))"

definition settledRef :: "Index \<Rightarrow> TypeRef \<Rightarrow> bool" where
  "settledRef index t = (id_t t = nullID \<or> resolves index (id_t t))"

subsection \<open>The passes in their order\<close>

text \<open>
  Modelled from the spec: the order in which the passes run (their caller is not among
  the sources): \<open>pruneMethods\<close>, \<open>resolveNamespaces\<close>, \<open>updateRecordNames\<close>,
  \<open>updateMemberFunctions\<close>, \<open>pruneTypeRefs\<close>.
\<close>

definition postPasses :: "Index \<Rightarrow> error + Index" where
  "postPasses index =
     (case updateMemberFunctions (updateRecordNames (resolveNamespaces (pruneMethods index))) of
        Inl e \<Rightarrow> Inl e
      | Inr index' \<Rightarrow> Inr (pruneTypeRefs index'))"

section \<open>What the spec says of the passes\<close>

text \<open>
  The inheritance list of a record prototype in the spec's words: the entries separated
  by a comma, each the base's name behind \<open>public\<close>, \<open>private\<close> or \<open>protected\<close>, and
  behind nothing when the access is none.
\<close>

definition inheritanceEntry :: "BaseRecord \<Rightarrow> string" where
  "inheritanceEntry b =
     (case access_b b of
        AS_public \<Rightarrow> ''public ''
      | AS_private \<Rightarrow> ''private ''
      | AS_protected \<Rightarrow> ''protected ''
      | AS_none \<Rightarrow> []) @ name_b b"

definition inheritanceList :: "BaseRecord list \<Rightarrow> string" where
  "inheritanceList bs = join (map inheritanceEntry bs) '', ''"

text \<open>
  The children of a namespace in the spec's words: the IDs of the symbols of a database
  whose \<open>parentNamespaceID\<close> is the namespace's ID.  The IDs of a database, and the
  condition that no two records, enums, namespaces or aliases of the index share an ID.
\<close>

definition childIDs :: "(SymbolID \<times> 'a Symbol_scheme) list \<Rightarrow> SymbolID \<Rightarrow> SymbolID set" where
  "childIDs es p = set (map (\<lambda>(k, s). ID s) (filter (\<lambda>(k, s). parentNamespaceID s = p) es))"

definition symbolIDs :: "(SymbolID \<times> 'a Symbol_scheme) list \<Rightarrow> SymbolID list" where
  "symbolIDs es = map (\<lambda>(k, s). ID s) es"

definition idsDistinct :: "Index \<Rightarrow> bool" where
  "idsDistinct index =
     distinct (symbolIDs (entries (records index)) @ symbolIDs (entries (enums index))
               @ symbolIDs (entries (namespaces index)) @ symbolIDs (entries (aliases index)))"

text \<open>The offsets of a function lie in its prototype, in their order.\<close>

definition offsetsValid :: "FunctionSymbol \<Rightarrow> bool" where
  "offsetsValid f = (postTemplate f \<le> nameStart f \<and> nameStart f \<le> length (proto f))"

text \<open>The three parts of a prototype in the spec's words: the slices at the two offsets.\<close>

definition templatePart :: "FunctionSymbol \<Rightarrow> string" where
  "templatePart f = take (postTemplate f) (proto f)"

definition preNamePart :: "FunctionSymbol \<Rightarrow> string" where
  "preNamePart f = take (nameStart f - postTemplate f) (drop (postTemplate f) (proto f))"

definition restPart :: "FunctionSymbol \<Rightarrow> string" where
  "restPart f = drop (nameStart f) (proto f)"

text \<open>The name of a function stands in its prototype at \<open>nameStart\<close>.\<close>

definition nameAtNameStart :: "FunctionSymbol \<Rightarrow> bool" where
  "nameAtNameStart f = (take (length (name f)) (drop (nameStart f) (proto f)) = name f)"

definition childListsEmpty :: "NamespaceSymbol \<Rightarrow> bool" where
  "childListsEmpty ns =
     (records_ns ns = [] \<and> enums_ns ns = [] \<and> namespaces_ns ns = [] \<and> usings ns = [])"

text \<open>
  No private member is stored: no function has private access, no record has a member
  variable with private access, and no alias that is a record member has private access.
\<close>

definition privateFree :: "Index \<Rightarrow> bool" where
  "privateFree index =
     (list_all (\<lambda>(k, f). access f \<noteq> AS_private) (entries (functions_ix index))
      \<and> list_all (\<lambda>(k, c). list_all (\<lambda>v. access_v v \<noteq> AS_private) (vars c))
           (entries (records index))
      \<and> list_all (\<lambda>(k, a). isRecordMember_a a \<longrightarrow> access a \<noteq> AS_private)
           (entries (aliases index)))"

text \<open>The member declarations of a record that are function templates, and those that are aliases.\<close>

fun functionTemplatesOf :: "MemberDecl list \<Rightarrow> Decl list" where
  "functionTemplatesOf [] = []"
| "functionTemplatesOf (FunctionTemplateDecl ftd # ds) = ftd # functionTemplatesOf ds"
| "functionTemplatesOf (_ # ds) = functionTemplatesOf ds"

fun memberAliasesOf :: "MemberDecl list \<Rightarrow> Decl list" where
  "memberAliasesOf [] = []"
| "memberAliasesOf (MemberAliasDecl alias # ds) = alias # memberAliasesOf ds"
| "memberAliasesOf (_ # ds) = memberAliasesOf ds"



section \<open>Concrete declarations and indexes\<close>

definition emptyDatabase :: "'a Database" where
  "emptyDatabase = \<lparr>entries = [], numMatches = 0\<rparr>"

definition emptyIndex :: Index where
  "emptyIndex =
     \<lparr>functions_ix = emptyDatabase, records = emptyDatabase, enums = emptyDatabase,
      namespaces = emptyDatabase, aliases = emptyDatabase\<rparr>"

text \<open>
  A configuration that ignores the namespaces whose name contains \<open>detail\<close> and no path,
  and a declaration in \<open>ns::detail\<close>, in the file \<open>src/foo.h\<close>.
\<close>

definition cfgDetail :: Config where
  "cfgDetail =
     \<lparr>rootDir = ''/proj'', ignorePaths = [], ignoreNamespaces = [''detail''],
      ignorePrivateMembers = False\<rparr>"

definition declInDetail :: Decl where
  "declInDetail =
     \<lparr>expansionLocValid = True, fileEntryName = Some ''src/foo.h'', sourceRangeValid = True,
      declContexts = [NamespaceDecl False ''detail'', NamespaceDecl False ''ns'', TranslationUnit],
      isImplicit = False, getAccess = AS_none, getNameAsString = ''Foo'',
      getQualifiedNameAsString = ''ns::detail::Foo'', isCXXClassMember = False, buildID = 11\<rparr>"

text \<open>A public method \<open>S::foo\<close>, and the same declaration deleted as written.\<close>

definition fooMethodDecl :: FunctionDecl where
  "fooMethodDecl =
     \<lparr>expansionLocValid = True, fileEntryName = Some ''src/s.h'', sourceRangeValid = True,
      declContexts = [RecordContext ''S'', TranslationUnit],
      isImplicit = False, getAccess = AS_public, getNameAsString = ''foo'',
      getQualifiedNameAsString = ''S::foo'', isCXXClassMember = True, buildID = 10,
      isDeletedAsWritten = False, isDeductionGuide = False, isStatic = False,
      filled_f = defaultFunctionSymbol\<lparr>name := ''foo'', proto := ''void foo()'',
                   nameStart := 5, parentNamespaceID := 3\<rparr>\<rparr>"

definition deletedMethodDecl :: FunctionDecl where
  "deletedMethodDecl = fooMethodDecl\<lparr>isDeletedAsWritten := True\<rparr>"

text \<open>
  The using-declaration \<open>using Base::method;\<close> in a record, with two shadows, the last of
  them for \<open>Base::method(int)\<close>.
\<close>

definition usingMethodDecl :: NamedDecl where
  "usingMethodDecl =
     \<lparr>expansionLocValid = True, fileEntryName = Some ''src/s.h'', sourceRangeValid = True,
      declContexts = [RecordContext ''S'', TranslationUnit],
      isImplicit = False, getAccess = AS_public, getNameAsString = ''method'',
      getQualifiedNameAsString = ''S::method'', isCXXClassMember = True, buildID = 30,
      kind = UsingDecl [\<lparr>refID = 41, refQualifiedName = ''Base::method''\<rparr>,
                        \<lparr>refID = 42, refQualifiedName = ''Base::method''\<rparr>],
      filled_a = defaultAliasSymbol\<lparr>name := ''method'', parentNamespaceID := 3\<rparr>\<rparr>"

text \<open>
  A private record \<open>Outer::Hidden\<close> and a private enum \<open>Outer::Secret\<close>, both nested in a
  record, with a configuration that asks for private members to be ignored.
\<close>

definition cfgPrivate :: Config where
  "cfgPrivate =
     \<lparr>rootDir = ''/proj'', ignorePaths = [], ignoreNamespaces = [],
      ignorePrivateMembers = True\<rparr>"

definition privateRecordDecl :: CXXRecordDecl where
  "privateRecordDecl =
     \<lparr>expansionLocValid = True, fileEntryName = Some ''src/outer.h'', sourceRangeValid = True,
      declContexts = [RecordContext ''Outer'', TranslationUnit],
      isImplicit = False, getAccess = AS_private, getNameAsString = ''Hidden'',
      getQualifiedNameAsString = ''Outer::Hidden'', isCXXClassMember = True, buildID = 51,
      isCompleteDefinition = True, typedefNameForAnonDecl = None, isSpecialization = False,
      hasTypeAsWritten = False, templateArgs = [], methods = [], decls = [], bases = [],
      fields_r = [], recordProto = ''struct Outer::Hidden'',
      filled_r = defaultRecordSymbol\<lparr>name := ''Hidden'', type_r := ''struct''\<rparr>\<rparr>"

definition privateEnumDecl :: EnumDecl where
  "privateEnumDecl =
     \<lparr>expansionLocValid = True, fileEntryName = Some ''src/outer.h'', sourceRangeValid = True,
      declContexts = [RecordContext ''Outer'', TranslationUnit],
      isImplicit = False, getAccess = AS_private, getNameAsString = ''Secret'',
      getQualifiedNameAsString = ''Outer::Secret'', isCXXClassMember = True, buildID = 52,
      filled_e = defaultEnumSymbol\<lparr>name := ''Secret'', type_e := ''enum''\<rparr>\<rparr>"

text \<open>
  An index as the matchers may leave it.  The namespace \<open>ns\<close> (100) holds the records
  \<open>B\<close> (1), \<open>C\<close> (2) and \<open>D\<close> (3), the enum \<open>E\<close> (20), the namespace \<open>inner\<close> (101) and
  the alias \<open>A\<close> (30).  \<open>D\<close> is a template over \<open>T\<close> that derives from \<open>B\<close> and \<open>C\<close>; its
  methods are \<open>f\<close> (10), which is indexed with the placeholder of \<open>T\<close> in its prototype,
  and a deleted one (12), which is not indexed.  The function 11 is a method of a record
  that is not in the index, and \<open>g\<close> (13) returns a type (77) that is not in the index.
\<close>

definition recordB :: RecordSymbol where
  "recordB = defaultRecordSymbol\<lparr>ID := 1, name := ''B'', parentNamespaceID := 100,
               type_r := ''struct'', proto_r := ''struct B''\<rparr>"

definition recordC :: RecordSymbol where
  "recordC = defaultRecordSymbol\<lparr>ID := 2, name := ''C'', parentNamespaceID := 100,
               type_r := ''struct'', proto_r := ''struct C''\<rparr>"

definition recordD :: RecordSymbol where
  "recordD = defaultRecordSymbol\<lparr>ID := 3, name := ''D'', parentNamespaceID := 100,
               type_r := ''struct'', proto_r := ''template <class T> struct D'',
               templateParams_r :=
                 [\<lparr>templateType = TemplateTypeParameter, name_tp = ''T'', type_tp = [],
                   defaultValue_tp = [], isTypename = False, isParameterPack = False\<rparr>],
               baseRecords := [\<lparr>id_b = 1, access_b = AS_public, name_b = ''B''\<rparr>,
                               \<lparr>id_b = 2, access_b = AS_private, name_b = ''C''\<rparr>],
               methodIDs := [10, 12],
               vars := [\<lparr>name_v = ''b'', type_v = \<lparr>name_t = ''B *'', id_t = 1\<rparr>,
                         defaultValue_v = [], access_v = AS_public, isStatic_v = False,
                         docComment_v = []\<rparr>,
                        \<lparr>name_v = ''h'', type_v = \<lparr>name_t = ''Hidden'', id_t = 77\<rparr>,
                         defaultValue_v = [], access_v = AS_public, isStatic_v = False,
                         docComment_v = []\<rparr>]\<rparr>"

definition functionF :: FunctionSymbol where
  "functionF = defaultFunctionSymbol\<lparr>ID := 10, name := ''f'', parentNamespaceID := 3,
                 access := AS_public, proto := ''void f(type-parameter-0-0 x)'',
                 nameStart := 5, returnType := \<lparr>name_t = ''void'', id_t = nullID\<rparr>,
                 params := [\<lparr>name_p = ''x'',
                             type_p = \<lparr>name_t = ''type-parameter-0-0'', id_t = nullID\<rparr>,
                             defaultValue_p = []\<rparr>],
                 isRecordMember := True\<rparr>"

definition functionOrphan :: FunctionSymbol where
  "functionOrphan = defaultFunctionSymbol\<lparr>ID := 11, name := ''baz'', parentNamespaceID := 55,
                      access := AS_public, proto := ''void baz()'', nameStart := 5,
                      returnType := \<lparr>name_t = ''void'', id_t = nullID\<rparr>,
                      isRecordMember := True\<rparr>"

definition functionG :: FunctionSymbol where
  "functionG = defaultFunctionSymbol\<lparr>ID := 13, name := ''g'', parentNamespaceID := 100,
                 proto := ''Hidden g(E e)'', nameStart := 7,
                 returnType := \<lparr>name_t = ''Hidden'', id_t = 77\<rparr>,
                 params := [\<lparr>name_p = ''e'', type_p = \<lparr>name_t = ''E'', id_t = 20\<rparr>,
                             defaultValue_p = []\<rparr>]\<rparr>"

definition enumE :: EnumSymbol where
  "enumE = defaultEnumSymbol\<lparr>ID := 20, name := ''E'', parentNamespaceID := 100,
             type_e := ''enum class''\<rparr>"

definition namespaceNs :: NamespaceSymbol where
  "namespaceNs = defaultNamespaceSymbol\<lparr>ID := 100, name := ''ns''\<rparr>"

definition namespaceInner :: NamespaceSymbol where
  "namespaceInner = defaultNamespaceSymbol\<lparr>ID := 101, name := ''inner'',
                      parentNamespaceID := 100\<rparr>"

definition aliasA :: AliasSymbol where
  "aliasA = defaultAliasSymbol\<lparr>ID := 30, name := ''A'', parentNamespaceID := 100,
              target := \<lparr>name_t = ''Gone'', id_t = 78\<rparr>\<rparr>"

definition exampleIndex :: Index where
  "exampleIndex =
     \<lparr>functions_ix = \<lparr>entries = [(10, functionF), (11, functionOrphan), (13, functionG)],
                       numMatches = 5\<rparr>,
      records = \<lparr>entries = [(1, recordB), (2, recordC), (3, recordD)], numMatches = 4\<rparr>,
      enums = \<lparr>entries = [(20, enumE)], numMatches = 1\<rparr>,
      namespaces = \<lparr>entries = [(100, namespaceNs), (101, namespaceInner)], numMatches = 3\<rparr>,
      aliases = \<lparr>entries = [(30, aliasA)], numMatches = 1\<rparr>\<rparr>"



text \<open>
  The record \<open>struct struct_exporting_base_members : struct_with_private_members\<close> of the
  example sources: its base has no access specifier written, and the front-end reports
  the access of a struct's base, public.
\<close>

definition exportingRecordDecl :: CXXRecordDecl where
  "exportingRecordDecl =
     \<lparr>expansionLocValid = True, fileEntryName = Some ''example/example.cpp'',
      sourceRangeValid = True,
      declContexts = [NamespaceDecl False ''example'', TranslationUnit],
      isImplicit = False, getAccess = AS_none,
      getNameAsString = ''struct_exporting_base_members'',
      getQualifiedNameAsString = ''example::struct_exporting_base_members'',
      isCXXClassMember = False, buildID = 61,
      isCompleteDefinition = True, typedefNameForAnonDecl = None, isSpecialization = False,
      hasTypeAsWritten = False, templateArgs = [], methods = [], decls = [],
      bases = [\<lparr>baseIsRecord = True, baseID = 60, getAccessSpecifier = AS_public,
                 getAccessSpecifierAsWritten = AS_none,
                 baseName = ''struct_with_private_members'', isInStdNamespace = False\<rparr>],
      fields_r = [], recordProto = ''struct struct_exporting_base_members'',
      filled_r = defaultRecordSymbol\<lparr>name := ''struct_exporting_base_members'',
                   type_r := ''struct''\<rparr>\<rparr>"

text \<open>
  A record template over the eleven parameters \<open>A\<close> to \<open>K\<close> and its method \<open>g\<close>, whose
  parameter has the type of the eleventh of them; the front-end prints that type as
  \<open>type-parameter-0-10\<close>.
\<close>

definition typeParameter :: "string \<Rightarrow> TemplateParam" where
  "typeParameter nm =
     \<lparr>templateType = TemplateTypeParameter, name_tp = nm, type_tp = [],
      defaultValue_tp = [], isTypename = False, isParameterPack = False\<rparr>"

definition recordEleven :: RecordSymbol where
  "recordEleven =
     defaultRecordSymbol\<lparr>ID := 3, name := ''R'', type_r := ''struct'',
       templateParams_r := map typeParameter
         [''A'', ''B'', ''C'', ''D'', ''E'', ''F'', ''G'', ''H'', ''I'', ''J'', ''K''],
       methodIDs := [10]\<rparr>"

definition functionEleven :: FunctionSymbol where
  "functionEleven =
     defaultFunctionSymbol\<lparr>ID := 10, name := ''g'', parentNamespaceID := 3,
       access := AS_public, proto := ''void g(type-parameter-0-10 x)'', nameStart := 5,
       returnType := \<lparr>name_t = ''void'', id_t = nullID\<rparr>,
       params := [\<lparr>name_p = ''x'',
                   type_p = \<lparr>name_t = ''type-parameter-0-10'', id_t = nullID\<rparr>,
                   defaultValue_p = []\<rparr>],
       isRecordMember := True\<rparr>"

definition elevenIndex :: Index where
  "elevenIndex =
     emptyIndex\<lparr>functions_ix := \<lparr>entries = [(10, functionEleven)], numMatches = 1\<rparr>,
                records := \<lparr>entries = [(3, recordEleven)], numMatches = 1\<rparr>\<rparr>"

section \<open>The ignore filter and the ignored namespaces\<close>

lemma shouldBeIgnored_no_paths:
  "ignorePaths cfg = [] \<Longrightarrow> \<not> shouldBeIgnored cfg d"
  by (simp add: shouldBeIgnored_def)

lemma shouldBeIgnored_with_file:
  "ignorePaths cfg \<noteq> [] \<Longrightarrow> expansionLocValid d \<Longrightarrow> fileEntryName d = Some fn \<Longrightarrow>
   isEnclosingNamespaceInList d (ignoreNamespaces cfg) \<Longrightarrow> shouldBeIgnored cfg d"
  by (simp add: shouldBeIgnored_def)

text \<open>
  C1.  The claim: a declaration with an enclosing non-anonymous namespace whose name
  contains a substring of \<open>ignoreNamespaces\<close> is filtered out by \<open>shouldBeIgnored\<close>, whether
  or not \<open>ignorePaths\<close> is empty.  The matcher returns before it looks at the namespaces
  when \<open>ignorePaths\<close> is empty: the declaration in \<open>ns::detail\<close> has an enclosing
  namespace in the list \<open>[detail]\<close> and is not ignored.
\<close>

theorem shouldBeIgnored_misses_namespace:
  "isEnclosingNamespaceInList declInDetail (ignoreNamespaces cfgDetail)
   \<and> \<not> shouldBeIgnored cfgDetail declInDetail"
  by (simp add: shouldBeIgnored_def isEnclosingNamespaceInList_def cfgDetail_def
      declInDetail_def)

section \<open>The function matcher and the match counter\<close>

text \<open>
  C3 (as amended).  For every function declaration that is neither deleted as written nor
  a deduction guide, \<open>functions.numMatches\<close> is incremented exactly once, whatever the
  drop decisions that follow (ignore list, invalid range, static non-member, anonymous
  namespace, private, duplicate ID) turn out to be, and no other counter changes.
\<close>

theorem FunctionMatcher_run_counts_once:
  "\<not> isDeletedAsWritten res \<and> \<not> isDeductionGuide res \<longrightarrow>
     numMatches (functions_ix (FunctionMatcher_run cfg res index))
       = numMatches (functions_ix index) + 1
     \<and> records (FunctionMatcher_run cfg res index) = records index
     \<and> enums (FunctionMatcher_run cfg res index) = enums index
     \<and> namespaces (FunctionMatcher_run cfg res index) = namespaces index
     \<and> aliases (FunctionMatcher_run cfg res index) = aliases index"
  by (simp add: FunctionMatcher_run_def countMatch_def update_def reserve_def Let_def)

theorem FunctionMatcher_run_counts_once_witness:
  "\<not> isDeletedAsWritten fooMethodDecl \<and> \<not> isDeductionGuide fooMethodDecl
   \<and> numMatches (functions_ix (FunctionMatcher_run cfgPrivate fooMethodDecl exampleIndex)) = 6"
  using FunctionMatcher_run_counts_once [of fooMethodDecl cfgPrivate exampleIndex]
  by (simp add: fooMethodDecl_def exampleIndex_def)

text \<open>
  The claim as it stands counts deleted functions and deduction guides too.  The matcher
  returns for them before it counts: the deleted method leaves the counter of the empty
  index at zero.
\<close>

theorem FunctionMatcher_run_deleted_not_counted:
  "isDeletedAsWritten deletedMethodDecl
   \<and> numMatches (functions_ix (FunctionMatcher_run cfgPrivate deletedMethodDecl emptyIndex))
       \<noteq> numMatches (functions_ix emptyIndex) + 1"
  by (simp add: FunctionMatcher_run_def deletedMethodDecl_def fooMethodDecl_def
      emptyIndex_def emptyDatabase_def)

section \<open>The alias matcher\<close>

lemma shadowsTarget_last:
  "shadows \<noteq> [] \<Longrightarrow>
   shadowsTarget t shadows =
     t\<lparr>id_t := refID (last shadows), name_t := refQualifiedName (last shadows)\<rparr>"
  by (induction shadows arbitrary: t) auto

lemma isAliasKind_cases:
  "isAliasKind k =
     ((\<exists>shadows. k = UsingDecl shadows) \<or> (\<exists>tgt. k = UsingShadowDecl tgt)
      \<or> (\<exists>underlying. k = TypeAliasDecl underlying))"
  by (cases k) auto

lemma UsingMatcher_run_rejected:
  "\<not> isAliasKind (kind res) \<or> isFunctionOrMethod (declContexts res) \<Longrightarrow>
   UsingMatcher_run cfg res index = index"
  by (auto simp add: UsingMatcher_run_def)

lemma UsingMatcher_run_stored:
  assumes "kind res = UsingDecl shadows" "shadows \<noteq> []"
    and "\<not> isFunctionOrMethod (declContexts res)"
    and "\<not> isInIgnoreList res cfg" "sourceRangeValid res"
    and "\<not> (getAccess res = AS_private \<and> ignorePrivateMembers cfg)"
    and "\<not> contains (aliases index) (buildID res)"
  shows "\<exists>a. map_of (entries (aliases (UsingMatcher_run cfg res index))) (buildID res) = Some a
           \<and> target a = \<lparr>name_t = refQualifiedName (last shadows), id_t = refID (last shadows)\<rparr>"
  using assms
  by (simp add: UsingMatcher_run_def Let_def countMatch_def contains_def update_def
      reserve_def update_conv' shadowsTarget_last defaultTypeRef_def)

text \<open>
  C9.  The alias matcher stores nothing and counts nothing for a node that is not a
  using-declaration, a using-shadow declaration or a type alias, and for a node whose
  declaration context is a function or method.  A using-declaration with at least one
  shadow that passes the filters and is not yet in the index is stored with the last
  shadow's underlying declaration as its target: that declaration's SymbolID as
  \<open>target.id\<close> and its qualified name as \<open>target.name\<close>.
\<close>

theorem UsingMatcher_run_target:
  "((\<forall>shadows. kind res \<noteq> UsingDecl shadows) \<and> (\<forall>tgt. kind res \<noteq> UsingShadowDecl tgt)
      \<and> (\<forall>underlying. kind res \<noteq> TypeAliasDecl underlying)
      \<longrightarrow> UsingMatcher_run cfg res index = index)
   \<and> (isFunctionOrMethod (declContexts res) \<longrightarrow> UsingMatcher_run cfg res index = index)
   \<and> (kind res = UsingDecl shadows \<and> shadows \<noteq> []
       \<and> \<not> isFunctionOrMethod (declContexts res)
       \<and> \<not> isInIgnoreList res cfg \<and> sourceRangeValid res
       \<and> \<not> (getAccess res = AS_private \<and> ignorePrivateMembers cfg)
       \<and> \<not> contains (aliases index) (buildID res)
       \<longrightarrow> (\<exists>a. map_of (entries (aliases (UsingMatcher_run cfg res index))) (buildID res)
                  = Some a
                \<and> target a = \<lparr>name_t = refQualifiedName (last shadows),
                               id_t = refID (last shadows)\<rparr>))"
proof (intro conjI impI)
  assume "(\<forall>shadows. kind res \<noteq> UsingDecl shadows) \<and> (\<forall>tgt. kind res \<noteq> UsingShadowDecl tgt)
      \<and> (\<forall>underlying. kind res \<noteq> TypeAliasDecl underlying)"
  then have "\<not> isAliasKind (kind res)"
    by (simp add: isAliasKind_cases)
  then show "UsingMatcher_run cfg res index = index"
    by (simp add: UsingMatcher_run_rejected)
next
  assume "isFunctionOrMethod (declContexts res)"
  then show "UsingMatcher_run cfg res index = index"
    by (simp add: UsingMatcher_run_rejected)
next
  assume "kind res = UsingDecl shadows \<and> shadows \<noteq> []
       \<and> \<not> isFunctionOrMethod (declContexts res)
       \<and> \<not> isInIgnoreList res cfg \<and> sourceRangeValid res
       \<and> \<not> (getAccess res = AS_private \<and> ignorePrivateMembers cfg)
       \<and> \<not> contains (aliases index) (buildID res)"
  then show "\<exists>a. map_of (entries (aliases (UsingMatcher_run cfg res index))) (buildID res)
                  = Some a
                \<and> target a = \<lparr>name_t = refQualifiedName (last shadows),
                               id_t = refID (last shadows)\<rparr>"
    using UsingMatcher_run_stored [of res shadows cfg index] by blast
qed

theorem UsingMatcher_run_target_witness:
  "kind usingMethodDecl = UsingDecl [\<lparr>refID = 41, refQualifiedName = ''Base::method''\<rparr>,
                                    \<lparr>refID = 42, refQualifiedName = ''Base::method''\<rparr>]
   \<and> \<not> isFunctionOrMethod (declContexts usingMethodDecl)
   \<and> \<not> isInIgnoreList usingMethodDecl cfgPrivate \<and> sourceRangeValid usingMethodDecl
   \<and> \<not> contains (aliases emptyIndex) (buildID usingMethodDecl)
   \<and> (\<exists>a. map_of (entries (aliases (UsingMatcher_run cfgPrivate usingMethodDecl emptyIndex))) 30
              = Some a
          \<and> target a = \<lparr>name_t = ''Base::method'', id_t = 42\<rparr>)"
  using UsingMatcher_run_target [of usingMethodDecl cfgPrivate emptyIndex
      "[\<lparr>refID = 41, refQualifiedName = ''Base::method''\<rparr>,
        \<lparr>refID = 42, refQualifiedName = ''Base::method''\<rparr>]"]
  by (simp add: usingMethodDecl_def cfgPrivate_def emptyIndex_def emptyDatabase_def
      isInIgnoreList_def isEnclosingNamespaceInList_def contains_def)

section \<open>updateRecordNames\<close>

lemma join_Cons: "join (x # xs) sep = x @ concat (map (\<lambda>y. sep @ y) xs)"
  by (induction xs arbitrary: x) auto

lemma appendBases_counted:
  "count > 0 \<Longrightarrow>
   appendBases p count bs =
     p @ concat (map (\<lambda>b. '', '' @ accessPrefix (access_b b) @ name_b b) bs)"
  by (induction bs arbitrary: p count) auto

lemma appendBases_first:
  "appendBases p 0 bs = p @ join (map (\<lambda>b. accessPrefix (access_b b) @ name_b b) bs) '', ''"
proof (cases bs)
  case Nil
  then show ?thesis by simp
next
  case (Cons b bs')
  then show ?thesis
    by (simp add: appendBases_counted join_Cons comp_def)
qed

lemma accessPrefix_entry: "accessPrefix (access_b b) @ name_b b = inheritanceEntry b"
  by (cases "access_b b") (simp_all add: inheritanceEntry_def)

lemma updateRecordName_proto:
  "updateRecordName c =
     (if baseRecords c = [] then c
      else c\<lparr>proto_r := proto_r c @ '' : '' @ inheritanceList (baseRecords c)\<rparr>)"
  by (simp add: updateRecordName_def appendBases_first accessPrefix_entry inheritanceList_def)

lemma baseRecordsOf_stored:
  "list_all2 (\<lambda>base b. id_b b = baseID base \<and> access_b b = getAccessSpecifier base
                  \<and> name_b b = (if isInStdNamespace base then ''std::'' @ baseName base
                                else baseName base))
     (filter baseIsRecord bs) (baseRecordsOf bs)"
  by (induction bs) auto

text \<open>
  C5 (as amended).  \<open>updateRecordNames\<close> leaves a record without base records as it is and
  appends to the prototype of every other record \<open>" : "\<close> and the inheritance list: the
  base names separated by \<open>", "\<close>, each behind \<open>"public "\<close>, \<open>"private "\<close> or \<open>"protected "\<close>
  according to the access stored for the base, and behind nothing when that access is
  none.  Nothing else in the index changes.  The access the record matcher stores for a
  base is the one the front-end reports for it (\<open>getAccessSpecifier()\<close>), not the
  specifier as written.
\<close>

theorem updateRecordNames_appends_bases:
  "entries (records (updateRecordNames index)) =
     map (\<lambda>(k, c). (k, if baseRecords c = [] then c
                        else c\<lparr>proto_r := proto_r c @ '' : '' @ inheritanceList (baseRecords c)\<rparr>))
       (entries (records index))
   \<and> numMatches (records (updateRecordNames index)) = numMatches (records index)
   \<and> functions_ix (updateRecordNames index) = functions_ix index
   \<and> enums (updateRecordNames index) = enums index
   \<and> namespaces (updateRecordNames index) = namespaces index
   \<and> aliases (updateRecordNames index) = aliases index
   \<and> list_all2 (\<lambda>base b. id_b b = baseID base \<and> access_b b = getAccessSpecifier base
                  \<and> name_b b = (if isInStdNamespace base then ''std::'' @ baseName base
                                else baseName base))
        (filter baseIsRecord bs) (baseRecordsOf bs)"
  by (simp add: updateRecordNames_def updateRecordName_proto baseRecordsOf_stored)

theorem updateRecordNames_appends_bases_witness:
  "map (\<lambda>(k, c). proto_r c) (entries (records (updateRecordNames exampleIndex))) =
     [''struct B'', ''struct C'', ''template <class T> struct D : public B, private C'']"
  using updateRecordNames_appends_bases [of exampleIndex]
  by (simp add: exampleIndex_def recordB_def recordC_def recordD_def defaultRecordSymbol_def
      inheritanceList_def inheritanceEntry_def)

text \<open>
  The claim as it stands has a prefix only where the access specifier is written in the
  source.  The record \<open>struct_exporting_base_members\<close> of the example sources names its
  base without a specifier; the matcher stores the public access the front-end reports
  for the base of a struct, and the pass appends \<open>public\<close> to the prototype.
\<close>

theorem updateRecordNames_prefix_not_written:
  "map getAccessSpecifierAsWritten (bases exportingRecordDecl) = [AS_none]
   \<and> map (\<lambda>(k, c). proto_r c)
        (entries (records (updateRecordNames
           (RecordMatcher_run cfgDetail exportingRecordDecl emptyIndex))))
      = [''struct struct_exporting_base_members : public struct_with_private_members'']"
  by (simp add: updateRecordNames_def updateRecordName_def RecordMatcher_run_def Let_def
      contains_def update_def reserve_def countMatch_def isInIgnoreList_def
      isInAnonymousNamespace_def isEnclosingNamespaceInList_def cfgDetail_def
      exportingRecordDecl_def emptyIndex_def emptyDatabase_def defaultRecordSymbol_def)

section \<open>pruneTypeRefs\<close>

lemma map_of_map_entries:
  "map_of (map (\<lambda>(k, v). (k, f v)) es) k = map_option f (map_of es k)"
  by (induction es) auto

lemma contains_map_entries [simp]:
  "contains (db\<lparr>entries := map (\<lambda>(k, v). (k, f v)) (entries db)\<rparr>) k = contains db k"
  by (simp add: contains_def map_of_map_entries)

lemma pruneTypeRefs_unfold:
  "pruneTypeRefs index =
     index\<lparr>functions_ix := (functions_ix index)
              \<lparr>entries := map (\<lambda>(k, v). (k, pruneFunction index v)) (entries (functions_ix index))\<rparr>,
           records := (records index)
              \<lparr>entries := map (\<lambda>(k, v). (k, pruneRecord index v)) (entries (records index))\<rparr>,
           aliases := (aliases index)
              \<lparr>entries := map (\<lambda>(k, v). (k, pruneAlias index v)) (entries (aliases index))\<rparr>\<rparr>"
proof -
  have r: "pruneRecord (index\<lparr>functions_ix := x\<rparr>) = pruneRecord index" for x
    by (rule ext) (simp add: pruneRecord_def pruneTypeRef_def haveId_def)
  have a: "pruneAlias (index\<lparr>functions_ix := x, records := (records index)\<lparr>entries := map (\<lambda>(k, v). (k, g v)) (entries (records index))\<rparr>\<rparr>) = pruneAlias index" for x g
    by (rule ext) (simp add: pruneAlias_def pruneTypeRef_def haveId_def)
  show ?thesis
    by (simp add: pruneTypeRefs_def Let_def r a)
qed

lemma haveId_pruneTypeRefs [simp]: "haveId (pruneTypeRefs index) = haveId index"
  by (rule ext) (simp add: pruneTypeRefs_unfold haveId_def)

lemma pruneTypeRef_idem: "pruneTypeRef index (pruneTypeRef index t) = pruneTypeRef index t"
  by (simp add: pruneTypeRef_def)

lemma pruneTypeRef_cong: "haveId i1 = haveId i2 \<Longrightarrow> pruneTypeRef i1 = pruneTypeRef i2"
  by (rule ext) (simp add: pruneTypeRef_def)

lemma pruneFunction_cong: "haveId i1 = haveId i2 \<Longrightarrow> pruneFunction i1 = pruneFunction i2"
  by (rule ext) (simp add: pruneFunction_def pruneTypeRef_cong[of i1 i2])

lemma pruneRecord_cong: "haveId i1 = haveId i2 \<Longrightarrow> pruneRecord i1 = pruneRecord i2"
  by (rule ext) (simp add: pruneRecord_def pruneTypeRef_cong[of i1 i2])

lemma pruneAlias_cong: "haveId i1 = haveId i2 \<Longrightarrow> pruneAlias i1 = pruneAlias i2"
  by (rule ext) (simp add: pruneAlias_def pruneTypeRef_cong[of i1 i2])

lemma pruneFunction_idem: "pruneFunction index (pruneFunction index f) = pruneFunction index f"
  by (simp add: pruneFunction_def pruneTypeRef_idem comp_def)

lemma pruneRecord_idem: "pruneRecord index (pruneRecord index c) = pruneRecord index c"
  by (simp add: pruneRecord_def pruneTypeRef_idem comp_def)

lemma pruneAlias_idem: "pruneAlias index (pruneAlias index a) = pruneAlias index a"
  by (simp add: pruneAlias_def pruneTypeRef_idem)

lemma entry_comp:
  "(\<lambda>(k, v). (k, g v)) \<circ> (\<lambda>(k, v). (k, f v)) = (\<lambda>(k, v). (k, g (f v)))"
  by (simp add: fun_eq_iff)

lemma contains_iff_key: "contains db k = (k \<in> fst ` set (entries db))"
  by (simp add: contains_def map_of_eq_None_iff)

lemma haveId_resolves: "haveId index = resolves index"
  by (rule ext) (simp add: haveId_def resolves_def contains_iff_key)

lemma resolves_pruneTypeRefs: "resolves (pruneTypeRefs index) = resolves index"
  using haveId_pruneTypeRefs[of index] by (simp add: haveId_resolves)

lemma prunedRef_pruneTypeRef: "prunedRef index t (pruneTypeRef index t)"
  by (simp add: prunedRef_def pruneTypeRef_def haveId_resolves)

lemma settledRef_pruneTypeRef: "settledRef index (pruneTypeRef index t)"
  by (simp add: settledRef_def pruneTypeRef_def haveId_resolves)

lemma settledRef_cong: "resolves i1 = resolves i2 \<Longrightarrow> settledRef i1 = settledRef i2"
  by (rule ext) (simp add: settledRef_def)

lemma list_all2_entries:
  "list_all2 (\<lambda>(k, v) (k', v'). k' = k \<and> P v v') es (map (\<lambda>(k, v). (k, f v)) es)
   = list_all (\<lambda>(k, v). P v (f v)) es"
  by (induction es) auto

lemma list_all_entries:
  "list_all (\<lambda>(k, v). P v) (map (\<lambda>(k, v). (k, f v)) es) = list_all (\<lambda>(k, v). P (f v)) es"
  by (induction es) auto

lemma list_all2_map_same: "list_all2 P xs (map f xs) = list_all (\<lambda>x. P x (f x)) xs"
  by (induction xs) auto

lemma functions_frame:
  "list_all2 (\<lambda>(k, f) (k', f'). k' = k
        \<and> f'\<lparr>returnType := returnType f, params := params f\<rparr> = f
        \<and> prunedRef index (returnType f) (returnType f')
        \<and> list_all2 (\<lambda>p p'. p'\<lparr>type_p := type_p p\<rparr> = p \<and> prunedRef index (type_p p) (type_p p'))
             (params f) (params f'))
     (entries (functions_ix index)) (entries (functions_ix (pruneTypeRefs index)))"
  by (simp add: pruneTypeRefs_unfold list_all2_entries list_all2_map_same pruneFunction_def
      prunedRef_pruneTypeRef list_all_iff split_def)

lemma records_frame:
  "list_all2 (\<lambda>(k, c) (k', c'). k' = k
        \<and> c'\<lparr>vars := vars c\<rparr> = c
        \<and> list_all2 (\<lambda>v v'. v'\<lparr>type_v := type_v v\<rparr> = v \<and> prunedRef index (type_v v) (type_v v'))
             (vars c) (vars c'))
     (entries (records index)) (entries (records (pruneTypeRefs index)))"
  by (simp add: pruneTypeRefs_unfold list_all2_entries list_all2_map_same pruneRecord_def
      prunedRef_pruneTypeRef list_all_iff split_def)

lemma aliases_frame:
  "list_all2 (\<lambda>(k, a) (k', a'). k' = k
        \<and> a'\<lparr>target := target a\<rparr> = a
        \<and> prunedRef index (target a) (target a'))
     (entries (aliases index)) (entries (aliases (pruneTypeRefs index)))"
  by (simp add: pruneTypeRefs_unfold list_all2_map_same pruneAlias_def
      prunedRef_pruneTypeRef list_all_iff split_def)

lemma functions_settled:
  "list_all (\<lambda>(k, f). settledRef (pruneTypeRefs index) (returnType f)
        \<and> list_all (\<lambda>p. settledRef (pruneTypeRefs index) (type_p p)) (params f))
     (entries (functions_ix (pruneTypeRefs index)))"
  by (simp add: settledRef_cong[OF resolves_pruneTypeRefs])
     (simp add: pruneTypeRefs_unfold list_all_entries pruneFunction_def 
      settledRef_pruneTypeRef list_all_iff split_def)

lemma records_settled:
  "list_all (\<lambda>(k, c). list_all (\<lambda>v. settledRef (pruneTypeRefs index) (type_v v)) (vars c))
     (entries (records (pruneTypeRefs index)))"
  by (simp add: settledRef_cong[OF resolves_pruneTypeRefs])
     (simp add: pruneTypeRefs_unfold list_all_entries pruneRecord_def 
      settledRef_pruneTypeRef list_all_iff split_def)

lemma aliases_settled:
  "list_all (\<lambda>(k, a). settledRef (pruneTypeRefs index) (target a))
     (entries (aliases (pruneTypeRefs index)))"
  by (simp add: settledRef_cong[OF resolves_pruneTypeRefs])
     (simp add: pruneTypeRefs_unfold list_all_entries pruneAlias_def 
      settledRef_pruneTypeRef list_all_iff split_def)

lemma databases_frame:
  "enums (pruneTypeRefs index) = enums index \<and> namespaces (pruneTypeRefs index) = namespaces index
   \<and> functions_ix (pruneTypeRefs index) = (functions_ix index)\<lparr>entries := entries (functions_ix (pruneTypeRefs index))\<rparr>
   \<and> records (pruneTypeRefs index) = (records index)\<lparr>entries := entries (records (pruneTypeRefs index))\<rparr>
   \<and> aliases (pruneTypeRefs index) = (aliases index)\<lparr>entries := entries (aliases (pruneTypeRefs index))\<rparr>"
  by (simp add: pruneTypeRefs_unfold)

text \<open>
  C7.  \<open>pruneTypeRefs\<close> leaves the enums and the namespaces as they are, and the
  functions, records and aliases with their keys, their order and their counters.  In a
  function only the return type and the types of the parameters may differ, in a record
  only the types of the member variables, in an alias only the target; each of these
  TypeRefs keeps its name, keeps its ID when the ID resolves to a record, enum or alias of
  the index and has the null ID otherwise.  Afterwards every one of these TypeRefs has an
  ID that is null or resolves in the pruned index.
\<close>

theorem pruneTypeRefs_only_nulls_unresolved:
  "enums (pruneTypeRefs index) = enums index
   \<and> namespaces (pruneTypeRefs index) = namespaces index
   \<and> functions_ix (pruneTypeRefs index)
       = (functions_ix index)\<lparr>entries := entries (functions_ix (pruneTypeRefs index))\<rparr>
   \<and> records (pruneTypeRefs index)
       = (records index)\<lparr>entries := entries (records (pruneTypeRefs index))\<rparr>
   \<and> aliases (pruneTypeRefs index)
       = (aliases index)\<lparr>entries := entries (aliases (pruneTypeRefs index))\<rparr>
   \<and> list_all2 (\<lambda>(k, f) (k', f'). k' = k
        \<and> f'\<lparr>returnType := returnType f, params := params f\<rparr> = f
        \<and> prunedRef index (returnType f) (returnType f')
        \<and> list_all2 (\<lambda>p p'. p'\<lparr>type_p := type_p p\<rparr> = p
                          \<and> prunedRef index (type_p p) (type_p p'))
             (params f) (params f'))
       (entries (functions_ix index)) (entries (functions_ix (pruneTypeRefs index)))
   \<and> list_all2 (\<lambda>(k, c) (k', c'). k' = k
        \<and> c'\<lparr>vars := vars c\<rparr> = c
        \<and> list_all2 (\<lambda>v v'. v'\<lparr>type_v := type_v v\<rparr> = v
                          \<and> prunedRef index (type_v v) (type_v v'))
             (vars c) (vars c'))
       (entries (records index)) (entries (records (pruneTypeRefs index)))
   \<and> list_all2 (\<lambda>(k, a) (k', a'). k' = k
        \<and> a'\<lparr>target := target a\<rparr> = a
        \<and> prunedRef index (target a) (target a'))
       (entries (aliases index)) (entries (aliases (pruneTypeRefs index)))
   \<and> list_all (\<lambda>(k, f). settledRef (pruneTypeRefs index) (returnType f)
        \<and> list_all (\<lambda>p. settledRef (pruneTypeRefs index) (type_p p)) (params f))
       (entries (functions_ix (pruneTypeRefs index)))
   \<and> list_all (\<lambda>(k, c). list_all (\<lambda>v. settledRef (pruneTypeRefs index) (type_v v)) (vars c))
       (entries (records (pruneTypeRefs index)))
   \<and> list_all (\<lambda>(k, a). settledRef (pruneTypeRefs index) (target a))
       (entries (aliases (pruneTypeRefs index)))"
  using databases_frame [of index] functions_frame [of index] records_frame [of index]
    aliases_frame [of index] functions_settled [of index] records_settled [of index]
    aliases_settled [of index]
  by (intro conjI) blast+

text \<open>
  In the example the return type of \<open>g\<close>, the type of the member \<open>h\<close> of \<open>D\<close> and the
  target of the alias \<open>A\<close> lose their IDs; the parameter of \<open>g\<close> and the member \<open>b\<close> of
  \<open>D\<close> keep theirs.
\<close>

theorem pruneTypeRefs_only_nulls_unresolved_witness:
  "map (\<lambda>(k, f). (returnType f, map type_p (params f)))
       (entries (functions_ix (pruneTypeRefs exampleIndex)))
     = [(\<lparr>name_t = ''void'', id_t = 0\<rparr>, [\<lparr>name_t = ''type-parameter-0-0'', id_t = 0\<rparr>]),
        (\<lparr>name_t = ''void'', id_t = 0\<rparr>, []),
        (\<lparr>name_t = ''Hidden'', id_t = 0\<rparr>, [\<lparr>name_t = ''E'', id_t = 20\<rparr>])]
   \<and> map (\<lambda>(k, c). map type_v (vars c)) (entries (records (pruneTypeRefs exampleIndex)))
     = [[], [], [\<lparr>name_t = ''B *'', id_t = 1\<rparr>, \<lparr>name_t = ''Hidden'', id_t = 0\<rparr>]]
   \<and> map (\<lambda>(k, a). target a) (entries (aliases (pruneTypeRefs exampleIndex)))
     = [\<lparr>name_t = ''Gone'', id_t = 0\<rparr>]
   \<and> list_all (\<lambda>(k, a). settledRef (pruneTypeRefs exampleIndex) (target a))
       (entries (aliases (pruneTypeRefs exampleIndex)))"
proof -
  have eval:
    "map (\<lambda>(k, f). (returnType f, map type_p (params f)))
         (entries (functions_ix (pruneTypeRefs exampleIndex)))
       = [(\<lparr>name_t = ''void'', id_t = 0\<rparr>, [\<lparr>name_t = ''type-parameter-0-0'', id_t = 0\<rparr>]),
          (\<lparr>name_t = ''void'', id_t = 0\<rparr>, []),
          (\<lparr>name_t = ''Hidden'', id_t = 0\<rparr>, [\<lparr>name_t = ''E'', id_t = 20\<rparr>])]
     \<and> map (\<lambda>(k, c). map type_v (vars c)) (entries (records (pruneTypeRefs exampleIndex)))
       = [[], [], [\<lparr>name_t = ''B *'', id_t = 1\<rparr>, \<lparr>name_t = ''Hidden'', id_t = 0\<rparr>]]
     \<and> map (\<lambda>(k, a). target a) (entries (aliases (pruneTypeRefs exampleIndex)))
       = [\<lparr>name_t = ''Gone'', id_t = 0\<rparr>]"
    by (simp add: pruneTypeRefs_unfold pruneFunction_def pruneRecord_def pruneAlias_def
        pruneTypeRef_def haveId_def contains_def exampleIndex_def nullID_def
        functionF_def functionOrphan_def functionG_def recordB_def recordC_def recordD_def
        aliasA_def enumE_def defaultFunctionSymbol_def defaultRecordSymbol_def
        defaultAliasSymbol_def defaultTypeRef_def)
  show ?thesis
    using eval pruneTypeRefs_only_nulls_unresolved [of exampleIndex] by blast
qed

text \<open>
  C10.  \<open>pruneTypeRefs\<close> is idempotent: the pass does not change which IDs resolve, and
  a TypeRef it has pruned is pruned to itself.
\<close>

theorem pruneTypeRefs_idempotent: "pruneTypeRefs (pruneTypeRefs index) = pruneTypeRefs index"
proof -
  have h: "haveId (pruneTypeRefs index) = haveId index" by simp
  have f: "functions_ix (pruneTypeRefs (pruneTypeRefs index)) = functions_ix (pruneTypeRefs index)"
    by (simp add: pruneTypeRefs_unfold[of "pruneTypeRefs index"] pruneFunction_cong[OF h])
       (simp add: pruneTypeRefs_unfold entry_comp pruneFunction_idem)
  have r: "records (pruneTypeRefs (pruneTypeRefs index)) = records (pruneTypeRefs index)"
    by (simp add: pruneTypeRefs_unfold[of "pruneTypeRefs index"] pruneRecord_cong[OF h])
       (simp add: pruneTypeRefs_unfold entry_comp pruneRecord_idem)
  have a: "aliases (pruneTypeRefs (pruneTypeRefs index)) = aliases (pruneTypeRefs index)"
    by (simp add: pruneTypeRefs_unfold[of "pruneTypeRefs index"] pruneAlias_cong[OF h])
       (simp add: pruneTypeRefs_unfold entry_comp pruneAlias_idem)
  have e: "enums (pruneTypeRefs (pruneTypeRefs index)) = enums (pruneTypeRefs index)"
    by (simp add: pruneTypeRefs_unfold[of "pruneTypeRefs index"])
  have n: "namespaces (pruneTypeRefs (pruneTypeRefs index)) = namespaces (pruneTypeRefs index)"
    by (simp add: pruneTypeRefs_unfold[of "pruneTypeRefs index"])
  have m: "Index.more (pruneTypeRefs (pruneTypeRefs index)) = Index.more (pruneTypeRefs index)"
    by simp
  show ?thesis
    by (rule Index.equality) (simp_all add: f r a e n)
qed

theorem pruneTypeRefs_idempotent_witness:
  "pruneTypeRefs (pruneTypeRefs exampleIndex) = pruneTypeRefs exampleIndex"
  by (rule pruneTypeRefs_idempotent)

section \<open>resolveNamespaces\<close>

lemma appendChildren_eq:
  "appendChildren ns acc es
     = acc @ map (\<lambda>(k, v). ID v) (filter (\<lambda>(k, v). parentNamespaceID v = ID ns) es)"
  by (induction es arbitrary: acc) (auto simp add: isChild_def)

lemma resolveNamespace_ID [simp]:
  "ID (resolveNamespace index ns) = ID ns"
  "parentNamespaceID (resolveNamespace index ns) = parentNamespaceID ns"
  by (simp_all add: resolveNamespace_def)

lemma childIDs_resolved:
  "childIDs (map (\<lambda>(k, ns). (k, resolveNamespace index ns)) es) p = childIDs es p"
  by (simp add: childIDs_def filter_map comp_def split_def)

lemma resolveNamespaces_frame:
  "functions_ix (resolveNamespaces index) = functions_ix index"
  "records (resolveNamespaces index) = records index"
  "enums (resolveNamespaces index) = enums index"
  "aliases (resolveNamespaces index) = aliases index"
  "entries (namespaces (resolveNamespaces index))
     = map (\<lambda>(k, ns). (k, resolveNamespace index ns)) (entries (namespaces index))"
  by (simp_all add: resolveNamespaces_def)

lemma distinct_append_sub:
  "distinct (xs @ ys) \<Longrightarrow> distinct xs' \<Longrightarrow> set xs' \<subseteq> set xs \<Longrightarrow>
   distinct ys' \<Longrightarrow> set ys' \<subseteq> set ys \<Longrightarrow> distinct (xs' @ ys')"
  by auto

lemma children_distinct:
  assumes "distinct (map f as @ map g bs @ map h cs @ map i ds)"
  shows "distinct (map f (filter P as) @ map g (filter Q bs) @ map h (filter R cs)
                   @ map i (filter S ds))"
proof -
  have a: "distinct (map f as)" and b: "distinct (map g bs)" and c: "distinct (map h cs)"
    and d: "distinct (map i ds)"
    using assms by simp_all
  have cd: "distinct (map h cs @ map i ds)" and bcd: "distinct (map g bs @ map h cs @ map i ds)"
    using assms by simp_all
  have fa: "distinct (map f (filter P as))" by (rule distinct_map_filter[OF a])
  have fb: "distinct (map g (filter Q bs))" by (rule distinct_map_filter[OF b])
  have fc: "distinct (map h (filter R cs))" by (rule distinct_map_filter[OF c])
  have fd: "distinct (map i (filter S ds))" by (rule distinct_map_filter[OF d])
  have sa: "set (map f (filter P as)) \<subseteq> set (map f as)" by auto
  have sb: "set (map g (filter Q bs)) \<subseteq> set (map g bs)" by auto
  have sc: "set (map h (filter R cs)) \<subseteq> set (map h cs)" by auto
  have sd: "set (map i (filter S ds)) \<subseteq> set (map i ds)" by auto
  have 1: "distinct (map h (filter R cs) @ map i (filter S ds))"
    by (rule distinct_append_sub[OF cd fc sc fd sd])
  have s1: "set (map h (filter R cs) @ map i (filter S ds)) \<subseteq> set (map h cs @ map i ds)"
    using sc sd by auto
  have 2: "distinct (map g (filter Q bs) @ map h (filter R cs) @ map i (filter S ds))"
    by (rule distinct_append_sub[OF bcd fb sb 1 s1])
  have s2: "set (map g (filter Q bs) @ map h (filter R cs) @ map i (filter S ds))
              \<subseteq> set (map g bs @ map h cs @ map i ds)"
    using sb sc sd by auto
  show ?thesis
    by (rule distinct_append_sub[OF assms fa sa 2 s2])
qed

lemma resolveNamespace_lists:
  assumes "childListsEmpty ns"
  shows "records_ns (resolveNamespace index ns)
           = map (\<lambda>(k, v). ID v) (filter (\<lambda>(k, v). parentNamespaceID v = ID ns) (entries (records index)))"
    and "enums_ns (resolveNamespace index ns)
           = map (\<lambda>(k, v). ID v) (filter (\<lambda>(k, v). parentNamespaceID v = ID ns) (entries (enums index)))"
    and "namespaces_ns (resolveNamespace index ns)
           = map (\<lambda>(k, v). ID v) (filter (\<lambda>(k, v). parentNamespaceID v = ID ns) (entries (namespaces index)))"
    and "usings (resolveNamespace index ns)
           = map (\<lambda>(k, v). ID v) (filter (\<lambda>(k, v). parentNamespaceID v = ID ns) (entries (aliases index)))"
  using assms by (simp_all add: resolveNamespace_def childListsEmpty_def appendChildren_eq)

lemma resolveNamespace_children:
  assumes "childListsEmpty ns" and "idsDistinct index"
  shows "set (records_ns (resolveNamespace index ns)) = childIDs (entries (records index)) (ID ns)
       \<and> set (enums_ns (resolveNamespace index ns)) = childIDs (entries (enums index)) (ID ns)
       \<and> set (namespaces_ns (resolveNamespace index ns))
           = childIDs (entries (namespaces index)) (ID ns)
       \<and> set (usings (resolveNamespace index ns)) = childIDs (entries (aliases index)) (ID ns)
       \<and> distinct (records_ns (resolveNamespace index ns) @ enums_ns (resolveNamespace index ns)
                    @ namespaces_ns (resolveNamespace index ns)
                    @ usings (resolveNamespace index ns))"
  using assms(2)
  by (simp only: resolveNamespace_lists[OF assms(1)] childIDs_def idsDistinct_def symbolIDs_def
      children_distinct simp_thms)

text \<open>
  C8.  Let no namespace have children listed before the pass (the namespace matcher
  stores none) and let no two records, enums, namespaces or aliases share an ID.  After
  \<open>resolveNamespaces\<close>, for every namespace \<open>ns\<close> of the index, the IDs in \<open>ns.records\<close>
  are exactly the IDs of the records whose \<open>parentNamespaceID\<close> is \<open>ns.ID\<close>, and likewise
  \<open>ns.enums\<close>, \<open>ns.namespaces\<close> and \<open>ns.usings\<close> for the enums, namespaces and aliases; no
  ID occurs twice in the four lists taken together, so each child is in the list of its
  kind and in no other.  The other databases are as before.
\<close>

theorem resolveNamespaces_children:
  assumes "list_all (\<lambda>(k, ns). childListsEmpty ns) (entries (namespaces index))"
    and "idsDistinct index"
  shows "functions_ix (resolveNamespaces index) = functions_ix index
     \<and> records (resolveNamespaces index) = records index
     \<and> enums (resolveNamespaces index) = enums index
     \<and> aliases (resolveNamespaces index) = aliases index
     \<and> list_all (\<lambda>(k, ns).
            set (records_ns ns) = childIDs (entries (records (resolveNamespaces index))) (ID ns)
          \<and> set (enums_ns ns) = childIDs (entries (enums (resolveNamespaces index))) (ID ns)
          \<and> set (namespaces_ns ns)
              = childIDs (entries (namespaces (resolveNamespaces index))) (ID ns)
          \<and> set (usings ns) = childIDs (entries (aliases (resolveNamespaces index))) (ID ns)
          \<and> distinct (records_ns ns @ enums_ns ns @ namespaces_ns ns @ usings ns))
         (entries (namespaces (resolveNamespaces index)))"
proof -
  have "list_all (\<lambda>(k, ns).
            set (records_ns ns) = childIDs (entries (records index)) (ID ns)
          \<and> set (enums_ns ns) = childIDs (entries (enums index)) (ID ns)
          \<and> set (namespaces_ns ns) = childIDs (entries (namespaces index)) (ID ns)
          \<and> set (usings ns) = childIDs (entries (aliases index)) (ID ns)
          \<and> distinct (records_ns ns @ enums_ns ns @ namespaces_ns ns @ usings ns))
         (map (\<lambda>(k, ns). (k, resolveNamespace index ns)) (entries (namespaces index)))"
    unfolding list_all_iff
  proof
    fix x
    assume "x \<in> set (map (\<lambda>(k, ns). (k, resolveNamespace index ns)) (entries (namespaces index)))"
    then obtain k ns where x: "x = (k, resolveNamespace index ns)"
      and mem: "(k, ns) \<in> set (entries (namespaces index))"
      by auto
    from mem assms(1) have "childListsEmpty ns"
      by (auto simp add: list_all_iff)
    from resolveNamespace_children[OF this assms(2)]
    show "case x of (k, ns) \<Rightarrow>
            set (records_ns ns) = childIDs (entries (records index)) (ID ns)
          \<and> set (enums_ns ns) = childIDs (entries (enums index)) (ID ns)
          \<and> set (namespaces_ns ns) = childIDs (entries (namespaces index)) (ID ns)
          \<and> set (usings ns) = childIDs (entries (aliases index)) (ID ns)
          \<and> distinct (records_ns ns @ enums_ns ns @ namespaces_ns ns @ usings ns)"
      unfolding x by (simp only: prod.case resolveNamespace_ID)
  qed
  then show ?thesis
    by (simp add: resolveNamespaces_frame childIDs_resolved)
qed

text \<open>
  In the example the namespace \<open>ns\<close> gets the records 1, 2 and 3, the enum 20, the
  namespace 101 and the alias 30, and the namespace \<open>inner\<close> gets no child.
\<close>

theorem resolveNamespaces_children_witness:
  "list_all (\<lambda>(k, ns). childListsEmpty ns) (entries (namespaces exampleIndex))
   \<and> idsDistinct exampleIndex
   \<and> map (\<lambda>(k, ns). (records_ns ns, enums_ns ns, namespaces_ns ns, usings ns))
        (entries (namespaces (resolveNamespaces exampleIndex)))
      = [([1, 2, 3], [20], [101], [30]), ([], [], [], [])]
   \<and> list_all (\<lambda>(k, ns).
          set (records_ns ns) = childIDs (entries (records (resolveNamespaces exampleIndex))) (ID ns)
        \<and> distinct (records_ns ns @ enums_ns ns @ namespaces_ns ns @ usings ns))
       (entries (namespaces (resolveNamespaces exampleIndex)))"
proof -
  have empty: "list_all (\<lambda>(k, ns). childListsEmpty ns) (entries (namespaces exampleIndex))"
    by (simp add: exampleIndex_def namespaceNs_def namespaceInner_def
        defaultNamespaceSymbol_def childListsEmpty_def)
  have ids: "idsDistinct exampleIndex"
    by (simp add: idsDistinct_def symbolIDs_def exampleIndex_def recordB_def recordC_def
        recordD_def enumE_def namespaceNs_def namespaceInner_def aliasA_def
        defaultRecordSymbol_def defaultEnumSymbol_def defaultNamespaceSymbol_def
        defaultAliasSymbol_def)
  have eval: "map (\<lambda>(k, ns). (records_ns ns, enums_ns ns, namespaces_ns ns, usings ns))
        (entries (namespaces (resolveNamespaces exampleIndex)))
      = [([1, 2, 3], [20], [101], [30]), ([], [], [], [])]"
    by (simp add: resolveNamespaces_def resolveNamespace_def isChild_def exampleIndex_def
        recordB_def recordC_def recordD_def enumE_def namespaceNs_def namespaceInner_def
        aliasA_def defaultRecordSymbol_def defaultEnumSymbol_def defaultNamespaceSymbol_def
        defaultAliasSymbol_def nullID_def)
  from resolveNamespaces_children [OF empty ids]
  have "list_all (\<lambda>(k, ns).
          set (records_ns ns) = childIDs (entries (records (resolveNamespaces exampleIndex))) (ID ns)
        \<and> distinct (records_ns ns @ enums_ns ns @ namespaces_ns ns @ usings ns))
       (entries (namespaces (resolveNamespaces exampleIndex)))"
    unfolding list_all_iff by blast
  with empty ids eval show ?thesis by blast
qed

section \<open>updateMemberFunctions\<close>

lemma updateMemberFunction_result:
  assumes "offsetsValid f"
  shows "updateMemberFunction c f =
     Inr ((if fixTypeParam c (take (postTemplate f) (proto f))
              @ fixTypeParam c (take (nameStart f - postTemplate f) (drop (postTemplate f) (proto f)))
              @ fixTypeParam c (drop (nameStart f) (proto f)) \<noteq> proto f
           then f\<lparr>proto := fixTypeParam c (take (postTemplate f) (proto f))
                     @ fixTypeParam c (take (nameStart f - postTemplate f) (drop (postTemplate f) (proto f)))
                     @ fixTypeParam c (drop (nameStart f) (proto f)),
                  name := fixTypeParam c (name f),
                  postTemplate := length (fixTypeParam c (take (postTemplate f) (proto f))),
                  nameStart := length (fixTypeParam c (take (postTemplate f) (proto f)))
                      + length (fixTypeParam c (take (nameStart f - postTemplate f)
                                                  (drop (postTemplate f) (proto f))))\<rparr>
           else f)\<lparr>params := map (fixParam c) (params f)\<rparr>)"
  using assms
  by (simp add: updateMemberFunction_def substr_def substrFrom_def wrapSub_def offsetsValid_def
      Let_def)

lemma updateMemberFunction_kept:
  assumes "updateMemberFunction c f = Inr f'"
  shows "isRecordMember f' = isRecordMember f \<and> parentNamespaceID f' = parentNamespaceID f
         \<and> ID f' = ID f \<and> access f' = access f \<and> returnType f' = returnType f"
  using assms
  by (auto simp add: updateMemberFunction_def substr_def substrFrom_def Let_def
      split: sum.splits if_splits)


lemma list_all_update:
  "list_all (\<lambda>(k, v). P v) al \<Longrightarrow> P v \<Longrightarrow> list_all (\<lambda>(k, v). P v) (AList.update k v al)"
  by (induction al) auto

lemma list_all_lookup:
  "list_all (\<lambda>(k, v). P v) al \<Longrightarrow> map_of al k = Some v \<Longrightarrow> P v"
  by (auto simp add: list_all_iff dest: map_of_SomeD)

lemma updateMethods_preserves:
  assumes step: "\<And>f f'. updateMemberFunction c f = Inr f' \<Longrightarrow> P f \<Longrightarrow> P f'"
  shows "updateMethods c ms fs = Inr fs' \<Longrightarrow> list_all (\<lambda>(k, v). P v) (entries fs) \<Longrightarrow>
         list_all (\<lambda>(k, v). P v) (entries fs')"
proof (induction ms arbitrary: fs)
  case Nil
  then show ?case by simp
next
  case (Cons m ms)
  show ?case
  proof (cases "map_of (entries fs) m")
    case None
    with Cons show ?thesis by simp
  next
    case (Some f)
    with Cons.prems obtain f' where f': "updateMemberFunction c f = Inr f'"
      and rest: "updateMethods c ms (update fs m f') = Inr fs'"
      by (auto split: sum.splits)
    from list_all_lookup[OF Cons.prems(2) Some] have "P f" .
    with step f' have "P f'" by blast
    with Cons.prems(2) have "list_all (\<lambda>(k, v). P v) (entries (update fs m f'))"
      by (simp add: update_def list_all_update)
    with Cons.IH rest show ?thesis by blast
  qed
qed

lemma updateRecords_preserves:
  assumes step: "\<And>c f f'. updateMemberFunction c f = Inr f' \<Longrightarrow> P f \<Longrightarrow> P f'"
  shows "updateRecords cs fs = Inr fs' \<Longrightarrow> list_all (\<lambda>(k, v). P v) (entries fs) \<Longrightarrow>
         list_all (\<lambda>(k, v). P v) (entries fs')"
proof (induction cs arbitrary: fs)
  case Nil
  then show ?case by simp
next
  case (Cons kc cs)
  obtain k c where kc: "kc = (k, c)" by (cases kc)
  with Cons.prems obtain fs1 where 1: "updateMethods c (methodIDs c) fs = Inr fs1"
    and 2: "updateRecords cs fs1 = Inr fs'"
    by (auto split: sum.splits)
  from updateMethods_preserves[where P=P, OF step 1 Cons.prems(2)]
  have "list_all (\<lambda>(k, v). P v) (entries fs1)" .
  with Cons.IH 2 show ?case by blast
qed




lemma fixParam_fields:
  "(fixParam c p)\<lparr>type_p := type_p p, defaultValue_p := defaultValue_p p\<rparr> = p
   \<and> name_t (type_p (fixParam c p)) = fixTypeParam c (name_t (type_p p))
   \<and> id_t (type_p (fixParam c p)) = id_t (type_p p)
   \<and> defaultValue_p (fixParam c p) = fixTypeParam c (defaultValue_p p)"
  by (simp add: fixParam_def)

lemma params_fixed:
  "list_all2 (\<lambda>p p'. p'\<lparr>type_p := type_p p, defaultValue_p := defaultValue_p p\<rparr> = p
        \<and> name_t (type_p p') = fixTypeParam c (name_t (type_p p))
        \<and> id_t (type_p p') = id_t (type_p p)
        \<and> defaultValue_p p' = fixTypeParam c (defaultValue_p p))
     ps (map (fixParam c) ps)"
  by (induction ps) (simp_all add: fixParam_fields)

text \<open>
  The step of \<open>updateMemberFunctions\<close> for a method \<open>f\<close> of the record \<open>c\<close> whose offsets
  lie in its prototype, with \<open>fixTypeParam\<close> written out on the three parts of the
  prototype, the name, the offsets and the parameters.
\<close>

lemma updateMemberFunction_step:
  assumes "offsetsValid f"
  shows "\<exists>f'. updateMemberFunction c f = Inr f'
     \<and> proto f' = fixTypeParam c (templatePart f) @ fixTypeParam c (preNamePart f)
                    @ fixTypeParam c (restPart f)
     \<and> (proto f' \<noteq> proto f \<longrightarrow>
          name f' = fixTypeParam c (name f)
          \<and> postTemplate f' = length (fixTypeParam c (templatePart f))
          \<and> nameStart f' = length (fixTypeParam c (templatePart f))
                            + length (fixTypeParam c (preNamePart f)))
     \<and> (proto f' = proto f \<longrightarrow>
          name f' = name f \<and> postTemplate f' = postTemplate f \<and> nameStart f' = nameStart f)
     \<and> list_all2 (\<lambda>p p'. p'\<lparr>type_p := type_p p, defaultValue_p := defaultValue_p p\<rparr> = p
            \<and> name_t (type_p p') = fixTypeParam c (name_t (type_p p))
            \<and> id_t (type_p p') = id_t (type_p p)
            \<and> defaultValue_p p' = fixTypeParam c (defaultValue_p p))
          (params f) (params f')
     \<and> f'\<lparr>proto := proto f, name := name f, postTemplate := postTemplate f,
            nameStart := nameStart f, params := params f\<rparr> = f
     \<and> offsetsValid f'
     \<and> (nameAtNameStart f
          \<and> take (length (fixTypeParam c (name f))) (fixTypeParam c (restPart f))
              = fixTypeParam c (name f)
          \<longrightarrow> nameAtNameStart f')"
proof (cases "fixTypeParam c (templatePart f) @ fixTypeParam c (preNamePart f)
                @ fixTypeParam c (restPart f) = proto f")
  case True
  with assms show ?thesis
    by (simp add: updateMemberFunction_result templatePart_def preNamePart_def restPart_def
        params_fixed offsetsValid_def nameAtNameStart_def)
next
  case False
  with assms show ?thesis
    by (simp add: updateMemberFunction_result templatePart_def preNamePart_def restPart_def
        params_fixed offsetsValid_def nameAtNameStart_def)
qed

lemma to_string_0: "to_string 0 = ''0''"
  by (simp add: to_string.simps digit_def)

text \<open>
  C6.  The claim: for a record with the template parameters \<open>P_0, ..., P_{k-1}\<close>, the pass
  replaces \<open>type-parameter-0-i\<close> by the name of \<open>P_i\<close> in the prototype, the name and the
  parameters of every method that is in the index.  \<open>fixTypeParam\<close> replaces the
  placeholders one after the other, beginning with \<open>type-parameter-0-0\<close>.  For a record
  with the eleven parameters \<open>A\<close> to \<open>K\<close> the placeholder of the second, \<open>type-parameter-0-1\<close>,
  is the beginning of the placeholder of the eleventh, \<open>type-parameter-0-10\<close>, and is
  replaced first: the pass turns the prototype \<open>void g(type-parameter-0-10 x)\<close> into
  \<open>void g(B0 x)\<close> and the type of the parameter into \<open>B0\<close>, where the name of the eleventh
  parameter is \<open>K\<close>.
\<close>

theorem updateMemberFunctions_eleventh_parameter:
  "map name_tp (templateParams_r recordEleven)
     = [''A'', ''B'', ''C'', ''D'', ''E'', ''F'', ''G'', ''H'', ''I'', ''J'', ''K'']
   \<and> offsetsValid functionEleven \<and> nameAtNameStart functionEleven
   \<and> updateMemberFunctions elevenIndex
       = Inr (elevenIndex\<lparr>functions_ix :=
                \<lparr>entries =
                   [(10, functionEleven\<lparr>proto := ''void g(B0 x)'',
                           params := [\<lparr>name_p = ''x'',
                                       type_p = \<lparr>name_t = ''B0'', id_t = nullID\<rparr>,
                                       defaultValue_p = []\<rparr>]\<rparr>)],
                 numMatches = 1\<rparr>\<rparr>)"
proof -
  have step: "updateMemberFunction recordEleven functionEleven
      = Inr (functionEleven\<lparr>proto := ''void g(B0 x)'',
               params := [\<lparr>name_p = ''x'', type_p = \<lparr>name_t = ''B0'', id_t = nullID\<rparr>,
                           defaultValue_p = []\<rparr>]\<rparr>)"
    by code_simp
  have ids: "methodIDs recordEleven = [10]"
    by (simp add: recordEleven_def defaultRecordSymbol_def)
  have pass: "updateMemberFunctions elevenIndex
       = Inr (elevenIndex\<lparr>functions_ix :=
                \<lparr>entries =
                   [(10, functionEleven\<lparr>proto := ''void g(B0 x)'',
                           params := [\<lparr>name_p = ''x'',
                                       type_p = \<lparr>name_t = ''B0'', id_t = nullID\<rparr>,
                                       defaultValue_p = []\<rparr>]\<rparr>)],
                 numMatches = 1\<rparr>\<rparr>)"
    by (simp add: updateMemberFunctions_def elevenIndex_def emptyIndex_def emptyDatabase_def
        ids step update_def)
  have names: "map name_tp (templateParams_r recordEleven)
     = [''A'', ''B'', ''C'', ''D'', ''E'', ''F'', ''G'', ''H'', ''I'', ''J'', ''K'']"
    by (simp add: recordEleven_def defaultRecordSymbol_def typeParameter_def)
  have valid: "offsetsValid functionEleven \<and> nameAtNameStart functionEleven"
    by (simp add: offsetsValid_def nameAtNameStart_def functionEleven_def
        defaultFunctionSymbol_def)
  from names valid pass show ?thesis by blast
qed

section \<open>The passes together and the method IDs\<close>

lemma fold_delete_filter:
  "fold AList.delete ks al = filter (\<lambda>(k, v). k \<notin> set ks) al"
proof (induction ks arbitrary: al)
  case Nil
  then show ?case by simp
next
  case (Cons k ks)
  have "AList.delete k al = filter (\<lambda>(k', v). k' \<noteq> k) al"
    by (induction al) auto
  with Cons show ?case
    by (auto simp add: split_def intro: filter_cong)
qed

lemma pruneMethods_frame:
  "records (pruneMethods index) = records index"
  "enums (pruneMethods index) = enums index"
  "namespaces (pruneMethods index) = namespaces index"
  "aliases (pruneMethods index) = aliases index"
  by (simp_all add: pruneMethods_def Let_def)

lemma pruneMethods_parents:
  "list_all (\<lambda>(k, f). isRecordMember f \<longrightarrow> contains (records index) (parentNamespaceID f))
     (entries (functions_ix (pruneMethods index)))"
  by (force simp add: pruneMethods_def Let_def fold_delete_filter list_all_iff)

lemma pruneMethods_subset:
  "set (entries (functions_ix (pruneMethods index))) \<subseteq> set (entries (functions_ix index))"
  by (auto simp add: pruneMethods_def Let_def fold_delete_filter)



lemma updateMemberFunctions_parts:
  assumes "updateMemberFunctions index = Inr index'"
  shows "records index' = records index"
    and "updateRecords (entries (records index)) (functions_ix index) = Inr (functions_ix index')"
  using assms by (auto simp add: updateMemberFunctions_def split: sum.splits)

lemma postPasses_result:
  assumes "postPasses index = Inr index'"
  obtains i4 where
    "updateMemberFunctions (updateRecordNames (resolveNamespaces (pruneMethods index))) = Inr i4"
    and "index' = pruneTypeRefs i4"
  using assms by (auto simp add: postPasses_def split: sum.splits)

lemma postPasses_records:
  assumes "postPasses index = Inr index'"
  shows "entries (records index')
     = map (\<lambda>(k, c). (k, pruneRecord index' (updateRecordName c))) (entries (records index))"
proof -
  from assms obtain i4 where
    4: "updateMemberFunctions (updateRecordNames (resolveNamespaces (pruneMethods index))) = Inr i4"
    and 5: "index' = pruneTypeRefs i4"
    by (rule postPasses_result)
  have r: "records i4 = records (updateRecordNames (resolveNamespaces (pruneMethods index)))"
    by (rule updateMemberFunctions_parts(1)[OF 4])
  have c: "pruneRecord index' = pruneRecord i4"
    unfolding 5 by (rule pruneRecord_cong) simp
  show ?thesis
    unfolding c
    by (simp add: 5 pruneTypeRefs_unfold r updateRecordNames_def resolveNamespaces_frame
        pruneMethods_frame entry_comp)
qed

lemma postPasses_contains:
  assumes "postPasses index = Inr index'"
  shows "contains (records index') k = contains (records index) k"
  by (simp add: contains_def postPasses_records[OF assms] map_of_map_entries)

lemma postPasses_functions:
  assumes "postPasses index = Inr index'"
  shows "list_all (\<lambda>(k, f). isRecordMember f \<longrightarrow> contains (records index) (parentNamespaceID f))
           (entries (functions_ix index'))"
proof -
  let ?Q = "\<lambda>f. isRecordMember f \<longrightarrow> contains (records index) (parentNamespaceID f)"
  let ?i3 = "updateRecordNames (resolveNamespaces (pruneMethods index))"
  from assms obtain i4 where 4: "updateMemberFunctions ?i3 = Inr i4"
    and 5: "index' = pruneTypeRefs i4"
    by (rule postPasses_result)
  have f3: "functions_ix ?i3 = functions_ix (pruneMethods index)"
    by (simp add: updateRecordNames_def resolveNamespaces_frame)
  have 1: "list_all (\<lambda>(k, f). ?Q f) (entries (functions_ix ?i3))"
    unfolding f3 by (rule pruneMethods_parents)
  have step: "\<And>c f f'. updateMemberFunction c f = Inr f' \<Longrightarrow> ?Q f \<Longrightarrow> ?Q f'"
    using updateMemberFunction_kept by simp
  have 2: "list_all (\<lambda>(k, f). ?Q f) (entries (functions_ix i4))"
    by (rule updateRecords_preserves[where P="?Q", OF step updateMemberFunctions_parts(2)[OF 4] 1])
  have "list_all (\<lambda>(k, f). ?Q (pruneFunction i4 f)) (entries (functions_ix i4))"
    using 2 by (simp add: pruneFunction_def)
  then show ?thesis
    by (simp add: 5 pruneTypeRefs_unfold list_all_entries)
qed

















section \<open>Private members\<close>

lemma update_appended:
  "map_of al k = None \<Longrightarrow> AList.update k v (al @ [(k, d)]) = al @ [(k, v)]"
  by (induction al) (auto split: if_splits)

lemma stored_entries:
  "\<not> contains db k \<Longrightarrow> entries (update (reserve d db k) k v) = entries db @ [(k, v)]"
  by (simp add: contains_def update_def reserve_def update_appended)

lemma varsOfFields_public:
  "ignorePrivateMembers cfg \<Longrightarrow>
   list_all (\<lambda>v. access_v v \<noteq> AS_private) (varsOfFields cfg fs)"
  by (induction fs) (auto simp add: memberVariable_def)

lemma varsOfDecls_public:
  "ignorePrivateMembers cfg \<Longrightarrow>
   list_all (\<lambda>v. access_v v \<noteq> AS_private) (varsOfDecls cfg ds)"
  by (induction cfg ds rule: varsOfDecls.induct) (auto simp add: memberVariable_def)

lemma methodIDsOfMethods_public:
  "ignorePrivateMembers cfg \<Longrightarrow>
   set (methodIDsOfMethods cfg ms)
     \<subseteq> canonicalDeclID ` {m \<in> set ms. getAccess m \<noteq> AS_private}"
  by (induction ms) (auto simp add: memberIgnored_def)

lemma methodIDsOfDecls_public:
  "ignorePrivateMembers cfg \<Longrightarrow>
   set (methodIDsOfDecls cfg ds)
     \<subseteq> buildID ` {d \<in> set (functionTemplatesOf ds). getAccess d \<noteq> AS_private}"
  by (induction cfg ds rule: methodIDsOfDecls.induct) (auto simp add: memberIgnored_def)

lemma aliasIDsOfDecls_public:
  "ignorePrivateMembers cfg \<Longrightarrow>
   set (aliasIDsOfDecls cfg ds)
     \<subseteq> buildID ` {d \<in> set (memberAliasesOf ds). getAccess d \<noteq> AS_private}"
  by (induction cfg ds rule: aliasIDsOfDecls.induct) (auto simp add: memberIgnored_def)

lemma FunctionMatcher_run_private:
  "ignorePrivateMembers cfg \<Longrightarrow> getAccess res = AS_private \<Longrightarrow>
   entries (functions_ix (FunctionMatcher_run cfg res index)) = entries (functions_ix index)"
  by (simp add: FunctionMatcher_run_def countMatch_def Let_def)

lemma UsingMatcher_run_private:
  "ignorePrivateMembers cfg \<Longrightarrow> getAccess res = AS_private \<Longrightarrow>
   entries (aliases (UsingMatcher_run cfg res index)) = entries (aliases index)"
  by (simp add: UsingMatcher_run_def countMatch_def Let_def)

lemma FunctionMatcher_run_entries:
  "(entries (functions_ix (FunctionMatcher_run cfg res index)) = entries (functions_ix index)
    \<or> (\<not> (getAccess res = AS_private \<and> ignorePrivateMembers cfg)
       \<and> (\<exists>f. entries (functions_ix (FunctionMatcher_run cfg res index))
                 = entries (functions_ix index) @ [(buildID res, f)]
              \<and> access f = getAccess res)))
   \<and> records (FunctionMatcher_run cfg res index) = records index
   \<and> aliases (FunctionMatcher_run cfg res index) = aliases index"
  by (simp add: FunctionMatcher_run_def Let_def stored_entries)
     (simp add: countMatch_def contains_def)

lemma UsingMatcher_run_entries:
  "(entries (aliases (UsingMatcher_run cfg res index)) = entries (aliases index)
    \<or> (\<not> (getAccess res = AS_private \<and> ignorePrivateMembers cfg)
       \<and> (\<exists>a. entries (aliases (UsingMatcher_run cfg res index))
                 = entries (aliases index) @ [(buildID res, a)]
              \<and> (isRecordMember_a a \<longrightarrow> access a = getAccess res))))
   \<and> records (UsingMatcher_run cfg res index) = records index
   \<and> functions_ix (UsingMatcher_run cfg res index) = functions_ix index"
  by (simp add: UsingMatcher_run_def Let_def stored_entries)
     (simp add: countMatch_def contains_def)

lemma RecordMatcher_run_entries:
  "(entries (records (RecordMatcher_run cfg res index)) = entries (records index)
    \<or> (\<exists>c. entries (records (RecordMatcher_run cfg res index))
                 = entries (records index) @ [(buildID res, c)]
              \<and> methodIDs c = methodIDsOfMethods cfg (methods res) @ methodIDsOfDecls cfg (decls res)
              \<and> aliasIDs c = aliasIDsOfDecls cfg (decls res)
              \<and> vars c = varsOfFields cfg (fields_r res) @ varsOfDecls cfg (decls res)))
   \<and> functions_ix (RecordMatcher_run cfg res index) = functions_ix index
   \<and> aliases (RecordMatcher_run cfg res index) = aliases index"
  by (simp add: RecordMatcher_run_def Let_def contains_def update_def reserve_def
      countMatch_def update_appended split: option.splits)

lemma EnumMatcher_run_frame:
  "functions_ix (EnumMatcher_run cfg res index) = functions_ix index
   \<and> records (EnumMatcher_run cfg res index) = records index
   \<and> aliases (EnumMatcher_run cfg res index) = aliases index"
  by (simp add: EnumMatcher_run_def Let_def)

lemma NamespaceMatcher_run_frame:
  "functions_ix (NamespaceMatcher_run cfg res index) = functions_ix index
   \<and> records (NamespaceMatcher_run cfg res index) = records index
   \<and> aliases (NamespaceMatcher_run cfg res index) = aliases index"
  by (simp add: NamespaceMatcher_run_def Let_def)

lemma privateFree_FunctionMatcher:
  assumes "ignorePrivateMembers cfg" and "privateFree index"
  shows "privateFree (FunctionMatcher_run cfg res index)"
  using FunctionMatcher_run_entries[of cfg res index] assms
  by (auto simp add: privateFree_def)

lemma privateFree_UsingMatcher:
  assumes "ignorePrivateMembers cfg" and "privateFree index"
  shows "privateFree (UsingMatcher_run cfg res index)"
  using UsingMatcher_run_entries[of cfg res index] assms
  by (auto simp add: privateFree_def)

lemma privateFree_RecordMatcher:
  assumes "ignorePrivateMembers cfg" and "privateFree index"
  shows "privateFree (RecordMatcher_run cfg res index)"
  using RecordMatcher_run_entries[of cfg res index] assms
    varsOfFields_public[OF assms(1), of "fields_r res"]
    varsOfDecls_public[OF assms(1), of "decls res"]
  by (auto simp add: privateFree_def)

lemma privateFree_EnumMatcher:
  "privateFree index \<Longrightarrow> privateFree (EnumMatcher_run cfg res index)"
  by (simp add: privateFree_def EnumMatcher_run_frame)

lemma privateFree_NamespaceMatcher:
  "privateFree index \<Longrightarrow> privateFree (NamespaceMatcher_run cfg res index)"
  by (simp add: privateFree_def NamespaceMatcher_run_frame)

lemma privateFree_pruneMethods:
  assumes "privateFree index"
  shows "privateFree (pruneMethods index)"
  using assms pruneMethods_subset[of index]
  by (auto simp add: privateFree_def pruneMethods_frame list_all_iff)

lemma privateFree_resolveNamespaces:
  "privateFree index \<Longrightarrow> privateFree (resolveNamespaces index)"
  by (simp add: privateFree_def resolveNamespaces_frame)

lemma updateRecordName_vars [simp]: "vars (updateRecordName c) = vars c"
  by (simp add: updateRecordName_def)

lemma privateFree_updateRecordNames:
  "privateFree index \<Longrightarrow> privateFree (updateRecordNames index)"
  by (simp add: privateFree_def updateRecordNames_def list_all_entries)

lemma privateFree_updateMemberFunctions:
  assumes "updateMemberFunctions index = Inr index'" and "privateFree index"
  shows "privateFree index'"
proof -
  have step: "\<And>c f f'. updateMemberFunction c f = Inr f' \<Longrightarrow> access f \<noteq> AS_private
                \<Longrightarrow> access f' \<noteq> AS_private"
    using updateMemberFunction_kept by simp
  have f0: "list_all (\<lambda>(k, f). access f \<noteq> AS_private) (entries (functions_ix index))"
    using assms(2) by (simp add: privateFree_def)
  have "list_all (\<lambda>(k, f). access f \<noteq> AS_private) (entries (functions_ix index'))"
    by (rule updateRecords_preserves[where P="\<lambda>f. access f \<noteq> AS_private",
          OF step updateMemberFunctions_parts(2)[OF assms(1)] f0])
  moreover have "aliases index' = aliases index"
    using assms(1) by (auto simp add: updateMemberFunctions_def split: sum.splits)
  ultimately show ?thesis
    using assms(2) by (simp add: privateFree_def updateMemberFunctions_parts(1)[OF assms(1)])
qed

lemma privateFree_pruneTypeRefs:
  "privateFree index \<Longrightarrow> privateFree (pruneTypeRefs index)"
  by (fastforce simp add: privateFree_def pruneTypeRefs_unfold pruneFunction_def
      pruneRecord_def pruneAlias_def list_all_iff)

lemma privateFree_postPasses:
  assumes "postPasses index = Inr index'" and "privateFree index"
  shows "privateFree index'"
proof -
  from assms(1) obtain i4 where
    4: "updateMemberFunctions (updateRecordNames (resolveNamespaces (pruneMethods index))) = Inr i4"
    and 5: "index' = pruneTypeRefs i4"
    by (rule postPasses_result)
  have "privateFree (updateRecordNames (resolveNamespaces (pruneMethods index)))"
    by (intro privateFree_updateRecordNames privateFree_resolveNamespaces
        privateFree_pruneMethods assms(2))
  from privateFree_updateMemberFunctions[OF 4 this] show ?thesis
    unfolding 5 by (rule privateFree_pruneTypeRefs)
qed

text \<open>
  C2 (as amended).  Let \<open>ignorePrivateMembers\<close> be true.  An index in which no function
  has private access, no record has a member variable with private access and no member
  alias has private access stays so under each of the five matchers and under the
  post-passes.  A function declaration or an alias declaration with private access is
  not stored.  A record that is stored takes its method IDs from the methods and the
  member function templates that are not private, and its alias IDs from the member
  aliases that are not private.
\<close>

theorem private_members_not_stored:
  assumes "ignorePrivateMembers cfg" and "privateFree index"
  shows "privateFree (FunctionMatcher_run cfg fd index)
     \<and> privateFree (UsingMatcher_run cfg nd index)
     \<and> privateFree (RecordMatcher_run cfg rd index)
     \<and> privateFree (EnumMatcher_run cfg ed index)
     \<and> privateFree (NamespaceMatcher_run cfg nsd index)
     \<and> (\<forall>index'. postPasses index = Inr index' \<longrightarrow> privateFree index')
     \<and> (getAccess fd = AS_private \<longrightarrow>
          entries (functions_ix (FunctionMatcher_run cfg fd index)) = entries (functions_ix index))
     \<and> (getAccess nd = AS_private \<longrightarrow>
          entries (aliases (UsingMatcher_run cfg nd index)) = entries (aliases index))
     \<and> (entries (records (RecordMatcher_run cfg rd index)) = entries (records index)
         \<or> (\<exists>c. entries (records (RecordMatcher_run cfg rd index))
                   = entries (records index) @ [(buildID rd, c)]
               \<and> set (methodIDs c)
                   \<subseteq> canonicalDeclID ` {m \<in> set (methods rd). getAccess m \<noteq> AS_private}
                     \<union> buildID ` {d \<in> set (functionTemplatesOf (decls rd)).
                                      getAccess d \<noteq> AS_private}
               \<and> set (aliasIDs c)
                   \<subseteq> buildID ` {d \<in> set (memberAliasesOf (decls rd)).
                                    getAccess d \<noteq> AS_private}))"
proof (intro conjI allI impI)
  show "privateFree (FunctionMatcher_run cfg fd index)"
    by (rule privateFree_FunctionMatcher[OF assms])
  show "privateFree (UsingMatcher_run cfg nd index)"
    by (rule privateFree_UsingMatcher[OF assms])
  show "privateFree (RecordMatcher_run cfg rd index)"
    by (rule privateFree_RecordMatcher[OF assms])
  show "privateFree (EnumMatcher_run cfg ed index)"
    by (rule privateFree_EnumMatcher[OF assms(2)])
  show "privateFree (NamespaceMatcher_run cfg nsd index)"
    by (rule privateFree_NamespaceMatcher[OF assms(2)])
  show "privateFree index'" if "postPasses index = Inr index'" for index'
    by (rule privateFree_postPasses[OF that assms(2)])
  show "entries (functions_ix (FunctionMatcher_run cfg fd index)) = entries (functions_ix index)"
    if "getAccess fd = AS_private"
    by (rule FunctionMatcher_run_private[OF assms(1) that])
  show "entries (aliases (UsingMatcher_run cfg nd index)) = entries (aliases index)"
    if "getAccess nd = AS_private"
    by (rule UsingMatcher_run_private[OF assms(1) that])
  show "entries (records (RecordMatcher_run cfg rd index)) = entries (records index)
         \<or> (\<exists>c. entries (records (RecordMatcher_run cfg rd index))
                   = entries (records index) @ [(buildID rd, c)]
               \<and> set (methodIDs c)
                   \<subseteq> canonicalDeclID ` {m \<in> set (methods rd). getAccess m \<noteq> AS_private}
                     \<union> buildID ` {d \<in> set (functionTemplatesOf (decls rd)).
                                      getAccess d \<noteq> AS_private}
               \<and> set (aliasIDs c)
                   \<subseteq> buildID ` {d \<in> set (memberAliasesOf (decls rd)).
                                    getAccess d \<noteq> AS_private})"
    using RecordMatcher_run_entries[of cfg rd index]
      methodIDsOfMethods_public[OF assms(1), of "methods rd"]
      methodIDsOfDecls_public[OF assms(1), of "decls rd"]
      aliasIDsOfDecls_public[OF assms(1), of "decls rd"]
    by auto
qed

text \<open>
  The example index holds no private member; with the configuration that ignores
  private members it holds none after the record matcher has run on the private nested
  record, nor after the function matcher has run on the method \<open>foo\<close>.
\<close>

theorem private_members_not_stored_witness:
  "ignorePrivateMembers cfgPrivate \<and> privateFree exampleIndex
   \<and> privateFree (FunctionMatcher_run cfgPrivate fooMethodDecl exampleIndex)
   \<and> privateFree (RecordMatcher_run cfgPrivate privateRecordDecl exampleIndex)"
proof -
  have c: "ignorePrivateMembers cfgPrivate"
    by (simp add: cfgPrivate_def)
  have p: "privateFree exampleIndex"
    by (simp add: privateFree_def exampleIndex_def functionF_def functionOrphan_def
        functionG_def recordB_def recordC_def recordD_def aliasA_def
        defaultFunctionSymbol_def defaultRecordSymbol_def defaultAliasSymbol_def)
  from private_members_not_stored [OF c p, where fd = fooMethodDecl and rd = privateRecordDecl]
    c p show ?thesis by blast
qed

text \<open>
  The claim as it stands has no private symbol among the records and the enums either.
  The record matcher and the enum matcher do not look at the access of the declaration:
  with private members ignored, the private nested record and the private nested enum
  are stored.
\<close>

theorem private_record_and_enum_stored:
  "ignorePrivateMembers cfgPrivate
   \<and> getAccess privateRecordDecl = AS_private
   \<and> contains (records (RecordMatcher_run cfgPrivate privateRecordDecl emptyIndex))
        (buildID privateRecordDecl)
   \<and> getAccess privateEnumDecl = AS_private
   \<and> contains (enums (EnumMatcher_run cfgPrivate privateEnumDecl emptyIndex))
        (buildID privateEnumDecl)"
  by (simp add: RecordMatcher_run_def EnumMatcher_run_def Let_def contains_def update_def
      reserve_def countMatch_def isInIgnoreList_def isInAnonymousNamespace_def
      isEnclosingNamespaceInList_def cfgPrivate_def privateRecordDecl_def privateEnumDecl_def
      emptyIndex_def emptyDatabase_def defaultRecordSymbol_def defaultEnumSymbol_def)

end
